theory Spec2Isabelle
  imports Complex_Main "HOL-Library.Word"
begin

section \<open>Errors and tensors\<close>

text \<open>
  The exceptions that the Python code (and the array library it calls) can raise, and
  two markers for results that the code returns but this model cannot hold.
  \<open>NotANumber\<close> marks a result that the floating-point code returns as NaN or an
  infinity: tensor elements are modelled as real numbers, which have no such value.
  \<open>EmptyAxis\<close> marks a result whose shape depends on a size that the nested list of
  an operand with an empty axis does not record.
\<close>

datatype error = AssertionError | ZeroDivisionError | ValueError | IndexError
  | RuntimeError | NotANumber | EmptyAxis

text \<open>
  Tensors are rectangular nested lists, with the rank fixed by the type; elements are
  reals. Exact arithmetic stands for the single-precision arithmetic of the library:
  the model does not round, does not overflow to an infinity (the code does once a
  magnitude passes about 3.4e38) and distinguishes numbers that single precision
  identifies (near 1e9 the representable numbers are 64 apart). Statements about the
  size of attention weights are therefore made for operands of bounded magnitude,
  where these effects do not occur. A nested list with an empty axis does not record
  the sizes of the axes below it, so the library's shape checks are modelled for
  tensors without empty axes.
\<close>

type_synonym vec = "real list"
type_synonym mat = "real list list"
type_synonym t3 = "real list list list"
type_synonym t4 = "real list list list list"

type_synonym bmat = "bool list list"
type_synonym bt3 = "bool list list list"

section \<open>subsequent_mask\<close>

definition np_ones :: "int \<Rightarrow> int \<Rightarrow> int \<Rightarrow> error + t3" where
  "np_ones a b c =
     (if a < 0 \<or> b < 0 \<or> c < 0 then Inl ValueError
      else Inr (replicate (nat a) (replicate (nat b) (replicate (nat c) 1))))"

definition triu_row :: "int \<Rightarrow> nat \<Rightarrow> vec \<Rightarrow> vec" where
  "triu_row k i row = map (\<lambda>j. if k \<le> int j - int i then row ! j else 0) [0..<length row]"

definition np_triu :: "int \<Rightarrow> t3 \<Rightarrow> t3" where
  "np_triu k m = map (\<lambda>a. map (\<lambda>i. triu_row k i (a ! i)) [0..<length a]) m"

definition astype_uint8 :: "real \<Rightarrow> 8 word" where
  "astype_uint8 x = word_of_int (if 0 \<le> x then \<lfloor>x\<rfloor> else \<lceil>x\<rceil>)"

definition subsequent_mask :: "int \<Rightarrow> error + bt3" where
  "subsequent_mask sz =
     (case np_ones 1 sz sz of
        Inl e \<Rightarrow> Inl e
      | Inr ones \<Rightarrow>
          Inr (map (map (map (\<lambda>w. w = 0))) (map (map (map astype_uint8)) (np_triu 1 ones))))"

section \<open>Fallible computations and the heap\<close>

definition bindE :: "error + 'a \<Rightarrow> ('a \<Rightarrow> error + 'b) \<Rightarrow> error + 'b" where
  "bindE m f = (case m of Inl e \<Rightarrow> Inl e | Inr x \<Rightarrow> f x)"

fun mapE :: "('a \<Rightarrow> error + 'b) \<Rightarrow> 'a list \<Rightarrow> error + 'b list" where
  "mapE f [] = Inr []"
| "mapE f (x # xs) = bindE (f x) (\<lambda>y. bindE (mapE f xs) (\<lambda>ys. Inr (y # ys)))"

text \<open>
  Parameters and registered buffers live in a store, addressed by object identity, so
  that sharing between modules is visible. The \<open>attn\<close> attribute of every
  multi-head attention object is a cell of its own (\<open>None\<close> is Python's None). The
  random generator is a stream of uniform draws from [0, 1) with the draws already
  consumed dropped.
\<close>

datatype tensor = T1 vec | T2 mat | T3 t3

record heap =
  params :: "nat \<Rightarrow> tensor option"
  attns :: "nat \<Rightarrow> t4 option option"
  nxt :: nat
  rng :: "nat \<Rightarrow> real"

type_synonym 'a M = "heap \<Rightarrow> error + ('a \<times> heap)"

definition returnM :: "'a \<Rightarrow> 'a M" where
  "returnM x = (\<lambda>h. Inr (x, h))"

definition bindM :: "'a M \<Rightarrow> ('a \<Rightarrow> 'b M) \<Rightarrow> 'b M" where
  "bindM m f = (\<lambda>h. case m h of Inl e \<Rightarrow> Inl e | Inr (x, h') \<Rightarrow> f x h')"

definition liftE :: "error + 'a \<Rightarrow> 'a M" where
  "liftE r = (\<lambda>h. case r of Inl e \<Rightarrow> Inl e | Inr x \<Rightarrow> Inr (x, h))"

definition read1 :: "nat \<Rightarrow> vec M" where
  "read1 a = (\<lambda>h. case params h a of Some (T1 v) \<Rightarrow> Inr (v, h) | _ \<Rightarrow> Inl RuntimeError)"

definition read2 :: "nat \<Rightarrow> mat M" where
  "read2 a = (\<lambda>h. case params h a of Some (T2 m) \<Rightarrow> Inr (m, h) | _ \<Rightarrow> Inl RuntimeError)"

definition read3 :: "nat \<Rightarrow> t3 M" where
  "read3 a = (\<lambda>h. case params h a of Some (T3 t) \<Rightarrow> Inr (t, h) | _ \<Rightarrow> Inl RuntimeError)"

fun foldM :: "('b \<Rightarrow> 'a \<Rightarrow> 'b M) \<Rightarrow> 'b \<Rightarrow> 'a list \<Rightarrow> 'b M" where
  "foldM f x [] = returnM x"
| "foldM f x (l # ls) = bindM (f x l) (\<lambda>x'. foldM f x' ls)"

fun mapM :: "('a \<Rightarrow> 'b M) \<Rightarrow> 'a list \<Rightarrow> 'b list M" where
  "mapM f [] = returnM []"
| "mapM f (x # xs) = bindM (f x) (\<lambda>y. bindM (mapM f xs) (\<lambda>ys. returnM (y # ys)))"

definition getitem :: "'a list \<Rightarrow> nat \<Rightarrow> 'a M" where
  "getitem xs i = (if i < length xs then returnM (xs ! i) else liftE (Inl IndexError))"

section \<open>Elementwise arithmetic with broadcasting\<close>

text \<open>
  Along one axis, two tensors combine when the sizes agree or one of them is 1;
  anything else is the library's shape error.
\<close>

definition bc_map2 :: "('a \<Rightarrow> 'b \<Rightarrow> error + 'c) \<Rightarrow> 'a list \<Rightarrow> 'b list \<Rightarrow> error + 'c list" where
  "bc_map2 g xs ys =
     (if length xs = length ys then mapE (\<lambda>(x, y). g x y) (zip xs ys)
      else if length xs = 1 then mapE (g (hd xs)) ys
      else if length ys = 1 then mapE (\<lambda>x. g x (hd ys)) xs
      else Inl RuntimeError)"

definition add0 :: "real \<Rightarrow> real \<Rightarrow> error + real" where
  "add0 a b = Inr (a + b)"

definition mul0 :: "real \<Rightarrow> real \<Rightarrow> error + real" where
  "mul0 a b = Inr (a * b)"

definition add1 :: "vec \<Rightarrow> vec \<Rightarrow> error + vec" where
  "add1 = bc_map2 add0"

definition add3 :: "t3 \<Rightarrow> t3 \<Rightarrow> error + t3" where
  "add3 = bc_map2 (bc_map2 (bc_map2 add0))"

definition divide_chk :: "real \<Rightarrow> real \<Rightarrow> error + real" where
  "divide_chk a b = (if b = 0 then Inl NotANumber else Inr (a / b))"

definition math_sqrt :: "int \<Rightarrow> error + real" where
  "math_sqrt d = (if d < 0 then Inl ValueError else Inr (sqrt (real_of_int d)))"

definition dot :: "vec \<Rightarrow> vec \<Rightarrow> real" where
  "dot x y = sum_list (map (\<lambda>(a, b). a * b) (zip x y))"

text \<open>
  The matrix product over the last two axes, with broadcasting over the axes before
  them. The rows of the left operand must be as long as the right operand has rows.
  When the right operand has no row, the code returns rows of zeros as wide as the
  right operand, a width that its nested list does not record.
\<close>

definition matmul :: "mat \<Rightarrow> mat \<Rightarrow> error + mat" where
  "matmul a b =
     (if \<exists>r \<in> set a. length r \<noteq> length b then Inl RuntimeError
      else if b = [] \<and> a \<noteq> [] then Inl EmptyAxis
      else Inr (map (\<lambda>r. map (dot r) (transpose b)) a))"

definition matmul4 :: "t4 \<Rightarrow> t4 \<Rightarrow> error + t4" where
  "matmul4 = bc_map2 (bc_map2 matmul)"

text \<open>
  The product \<open>torch.matmul(a, b.transpose(-2, -1))\<close> with the transposed right
  operand: entry (i, j) is the dot product of row i of \<open>a\<close> and row j of \<open>b\<close>, and the
  rows of both must have the same length. It is computed from the rows of \<open>b\<close>, so
  that a \<open>b\<close> without rows gives rows without entries, as in the code (the nested list
  of the transpose would not record how long the rows of \<open>b\<close> are).
\<close>

definition matmul_nt :: "mat \<Rightarrow> mat \<Rightarrow> error + mat" where
  "matmul_nt a b =
     (if \<forall>r \<in> set a. \<forall>c \<in> set b. length r = length c
      then Inr (map (\<lambda>r. map (dot r) b) a)
      else Inl RuntimeError)"

definition matmul4_nt :: "t4 \<Rightarrow> t4 \<Rightarrow> error + t4" where
  "matmul4_nt = bc_map2 (bc_map2 matmul_nt)"

section \<open>Dropout\<close>

record Dropout =
  dropout_p :: real
  training :: bool

definition Dropout_init :: "real \<Rightarrow> error + Dropout" where
  "Dropout_init p =
     (if p < 0 \<or> 1 < p then Inl ValueError
      else Inr \<lparr>dropout_p = p, training = True\<rparr>)"

fun map_accum :: "('a \<Rightarrow> 's \<Rightarrow> 'b \<times> 's) \<Rightarrow> 'a list \<Rightarrow> 's \<Rightarrow> 'b list \<times> 's" where
  "map_accum f [] s = ([], s)"
| "map_accum f (x # xs) s =
     (case f x s of (y, s') \<Rightarrow> (case map_accum f xs s' of (ys, s'') \<Rightarrow> (y # ys, s'')))"

definition dropout_vec :: "real \<Rightarrow> vec \<Rightarrow> (nat \<Rightarrow> real) \<Rightarrow> vec \<times> (nat \<Rightarrow> real)" where
  "dropout_vec p v g =
     (map (\<lambda>i. if g i < 1 - p then v ! i / (1 - p) else 0) [0..<length v],
      \<lambda>i. g (i + length v))"

definition F_dropout ::
  "((vec \<Rightarrow> (nat \<Rightarrow> real) \<Rightarrow> vec \<times> (nat \<Rightarrow> real)) \<Rightarrow> 'a \<Rightarrow> (nat \<Rightarrow> real) \<Rightarrow> 'a \<times> (nat \<Rightarrow> real))
     \<Rightarrow> Dropout \<Rightarrow> 'a \<Rightarrow> 'a M" where
  "F_dropout over d x =
     (\<lambda>h. if training d \<and> dropout_p d \<noteq> 0
          then (case over (dropout_vec (dropout_p d)) x (rng h) of
                  (y, g) \<Rightarrow> Inr (y, h\<lparr>rng := g\<rparr>))
          else Inr (x, h))"

definition Dropout_forward3 :: "Dropout \<Rightarrow> t3 \<Rightarrow> t3 M" where
  "Dropout_forward3 = F_dropout (\<lambda>f. map_accum (map_accum f))"

definition Dropout_forward4 :: "Dropout \<Rightarrow> t4 \<Rightarrow> t4 M" where
  "Dropout_forward4 = F_dropout (\<lambda>f. map_accum (map_accum (map_accum f)))"

section \<open>Embeddings and positional encoding\<close>

record Embeddings =
  lut :: nat
  emb_d_model :: int

definition embedding_lookup :: "mat \<Rightarrow> int \<Rightarrow> error + vec" where
  "embedding_lookup W i =
     (if 0 \<le> i \<and> i < int (length W) then Inr (W ! nat i) else Inl IndexError)"

definition Embeddings_forward :: "Embeddings \<Rightarrow> int list list \<Rightarrow> t3 M" where
  "Embeddings_forward e x =
     bindM (read2 (lut e)) (\<lambda>W.
     liftE (bindE (mapE (mapE (embedding_lookup W)) x) (\<lambda>embedds.
            bindE (math_sqrt (emb_d_model e)) (\<lambda>s.
            Inr (map (map (map (\<lambda>v. v * s))) embedds)))))"

record PositionalEncoding =
  pe_dropout :: Dropout
  pe :: nat

definition size1 :: "'a list list \<Rightarrow> nat" where
  "size1 x = (case x of [] \<Rightarrow> 0 | r # _ \<Rightarrow> length r)"

definition PositionalEncoding_forward :: "PositionalEncoding \<Rightarrow> t3 \<Rightarrow> t3 M" where
  "PositionalEncoding_forward m x =
     bindM (read3 (pe m)) (\<lambda>buf.
     bindM (liftE (add3 x (map (take (size1 x)) buf))) (\<lambda>x'.
     Dropout_forward3 (pe_dropout m) x'))"

section \<open>Scaled dot-product attention\<close>

definition size_last :: "t4 \<Rightarrow> nat" where
  "size_last q = (case concat (concat q) of [] \<Rightarrow> 0 | r # _ \<Rightarrow> length r)"

definition attention_scores :: "t4 \<Rightarrow> t4 \<Rightarrow> error + t4" where
  "attention_scores query key =
     bindE (matmul4_nt query key) (\<lambda>s.
     mapE (mapE (mapE (mapE (\<lambda>v. divide_chk v (sqrt (real (size_last query))))))) s)"

definition fill0 :: "real \<Rightarrow> bool \<Rightarrow> error + real" where
  "fill0 s m = Inr (if m = False then - 1000000000 else s)"

definition masked_fill :: "t4 \<Rightarrow> bool list list list list \<Rightarrow> error + t4" where
  "masked_fill = bc_map2 (bc_map2 (bc_map2 (bc_map2 fill0)))"

definition softmax :: "vec \<Rightarrow> vec" where
  "softmax r = map (\<lambda>s. exp s / sum_list (map exp r)) r"

definition attention_weights :: "t4 \<Rightarrow> t4 \<Rightarrow> bool list list list list option \<Rightarrow> error + t4" where
  "attention_weights query key msk =
     bindE (attention_scores query key) (\<lambda>scores.
     bindE (case msk of None \<Rightarrow> Inr scores | Some m \<Rightarrow> masked_fill scores m) (\<lambda>scores'.
     Inr (map (map (map softmax)) scores')))"

definition attention ::
  "t4 \<Rightarrow> t4 \<Rightarrow> t4 \<Rightarrow> bool list list list list option \<Rightarrow> (t4 \<Rightarrow> t4 M) option \<Rightarrow> (t4 \<times> t4) M" where
  "attention query key val msk dropout =
     bindM (liftE (attention_weights query key msk)) (\<lambda>p_attn.
     bindM (case dropout of None \<Rightarrow> returnM p_attn | Some d \<Rightarrow> d p_attn) (\<lambda>p_attn'.
     bindM (liftE (matmul4 p_attn' val)) (\<lambda>out.
     returnM (out, p_attn'))))"

section \<open>Linear layers and multi-head attention\<close>

record Linear =
  weight :: nat
  bias :: nat

definition F_linear :: "mat \<Rightarrow> vec \<Rightarrow> vec \<Rightarrow> error + vec" where
  "F_linear W b x =
     (if \<forall>w \<in> set W. length w = length x then add1 (map (dot x) W) b
      else Inl RuntimeError)"

definition Linear_forward :: "Linear \<Rightarrow> t3 \<Rightarrow> t3 M" where
  "Linear_forward l x =
     bindM (read2 (weight l)) (\<lambda>W.
     bindM (read1 (bias l)) (\<lambda>b.
     liftE (mapE (mapE (F_linear W b)) x)))"

record MultiHeadedAttention =
  mha_d_k :: int
  mha_h :: int
  linears :: "Linear list"
  attn :: nat
  mha_dropout :: Dropout

definition chunks :: "nat \<Rightarrow> nat \<Rightarrow> 'a list \<Rightarrow> 'a list list" where
  "chunks cnt len xs = map (\<lambda>i. take len (drop (i * len) xs)) [0..<cnt]"

definition view4 :: "nat \<Rightarrow> int \<Rightarrow> int \<Rightarrow> t3 \<Rightarrow> error + t4" where
  "view4 n h dk x =
     (let flat = concat (concat x); row = nat h * nat dk in
      if h < 0 \<or> dk < 0 \<or> n * row = 0 \<or> length flat mod (n * row) \<noteq> 0
      then Inl RuntimeError
      else let t = length flat div (n * row) in
        Inr (map (\<lambda>b. map (chunks (nat h) (nat dk)) (chunks t row b))
                 (chunks n (t * row) flat)))"

definition view3 :: "nat \<Rightarrow> int \<Rightarrow> t4 \<Rightarrow> error + t3" where
  "view3 n d x =
     (let flat = concat (concat (concat x)); row = nat d in
      if d < 0 \<or> n * row = 0 \<or> length flat mod (n * row) \<noteq> 0
      then Inl RuntimeError
      else let t = length flat div (n * row) in
        Inr (map (chunks t row) (chunks n (t * row) flat)))"

definition transpose12 :: "'a list list list \<Rightarrow> 'a list list list" where
  "transpose12 = map transpose"

definition project_heads :: "MultiHeadedAttention \<Rightarrow> nat \<Rightarrow> Linear \<Rightarrow> t3 \<Rightarrow> t4 M" where
  "project_heads m nbatches l x =
     bindM (Linear_forward l x) (\<lambda>y.
     bindM (liftE (view4 nbatches (mha_h m) (mha_d_k m) y)) (\<lambda>v.
     returnM (transpose12 v)))"

definition set_attn :: "nat \<Rightarrow> t4 \<Rightarrow> unit M" where
  "set_attn a w = (\<lambda>h. Inr ((), h\<lparr>attns := (attns h)(a := Some (Some w))\<rparr>))"

definition MultiHeadedAttention_forward ::
  "MultiHeadedAttention \<Rightarrow> t3 \<Rightarrow> t3 \<Rightarrow> t3 \<Rightarrow> bt3 option \<Rightarrow> t3 M" where
  "MultiHeadedAttention_forward m query key val msk =
     (let msk' = map_option (map (\<lambda>b. [b])) msk;
          nbatches = length query
      in bindM (mapM (\<lambda>(l, x). project_heads m nbatches l x)
                  (zip (linears m) [query, key, val])) (\<lambda>qkv.
         case qkv of
           [q, k, v] \<Rightarrow>
             bindM (attention q k v msk' (Some (Dropout_forward4 (mha_dropout m)))) (\<lambda>(x, p_attn).
             bindM (set_attn (attn m) p_attn) (\<lambda>_.
             bindM (liftE (view3 nbatches (mha_h m * mha_d_k m) (transpose12 x))) (\<lambda>x'.
             bindM (getitem (linears m) (length (linears m) - 1)) (\<lambda>l.
             Linear_forward l x'))))
         | _ \<Rightarrow> liftE (Inl ValueError)))"

section \<open>Feed-forward, layer normalization and the sublayer connection\<close>

record PositionwiseFeedForward =
  w_1 :: Linear
  w_2 :: Linear
  ff_dropout :: Dropout

definition relu :: "real \<Rightarrow> real" where
  "relu v = max 0 v"

definition PositionwiseFeedForward_forward :: "PositionwiseFeedForward \<Rightarrow> t3 \<Rightarrow> t3 M" where
  "PositionwiseFeedForward_forward f x =
     bindM (Linear_forward (w_1 f) x) (\<lambda>y.
     bindM (Dropout_forward3 (ff_dropout f) (map (map (map relu)) y)) (\<lambda>z.
     Linear_forward (w_2 f) z))"

record LayerNorm =
  a_2 :: nat
  b_2 :: nat
  eps :: real

definition mean :: "vec \<Rightarrow> real" where
  "mean x = sum_list x / real (length x)"

text \<open>The library's standard deviation divides by n - 1 (Bessel's correction).\<close>

definition std :: "vec \<Rightarrow> real" where
  "std x = sqrt (sum_list (map (\<lambda>v. (v - mean x)\<^sup>2) x) / (real (length x) - 1))"


definition layer_norm :: "vec \<Rightarrow> vec \<Rightarrow> real \<Rightarrow> vec \<Rightarrow> error + vec" where
  "layer_norm a b e x =
     (if length x = 1 then Inl NotANumber
      else bindE (bc_map2 mul0 a (map (\<lambda>v. v - mean x) x)) (\<lambda>num.
           bindE (mapE (\<lambda>v. divide_chk v (std x + e)) num) (\<lambda>q.
           add1 q b)))"

definition LayerNorm_forward :: "LayerNorm \<Rightarrow> t3 \<Rightarrow> t3 M" where
  "LayerNorm_forward n x =
     bindM (read1 (a_2 n)) (\<lambda>a.
     bindM (read1 (b_2 n)) (\<lambda>b.
     liftE (mapE (mapE (layer_norm a b (eps n))) x)))"

record SublayerConnection =
  sc_norm :: LayerNorm
  sc_dropout :: Dropout

definition SublayerConnection_forward :: "SublayerConnection \<Rightarrow> t3 \<Rightarrow> (t3 \<Rightarrow> t3 M) \<Rightarrow> t3 M" where
  "SublayerConnection_forward s x sublayer =
     bindM (sublayer x) (\<lambda>y.
     bindM (Dropout_forward3 (sc_dropout s) y) (\<lambda>d.
     bindM (LayerNorm_forward (sc_norm s) d) (\<lambda>n.
     liftE (add3 x n))))"

section \<open>Encoder and decoder\<close>

record EncoderLayer =
  el_self_attn :: MultiHeadedAttention
  el_feed_forward :: PositionwiseFeedForward
  el_sublayer :: "SublayerConnection list"
  el_size :: int

definition EncoderLayer_forward :: "EncoderLayer \<Rightarrow> t3 \<Rightarrow> bt3 option \<Rightarrow> t3 M" where
  "EncoderLayer_forward l x msk =
     bindM (getitem (el_sublayer l) 0) (\<lambda>s0.
     bindM (SublayerConnection_forward s0 x
              (\<lambda>x. MultiHeadedAttention_forward (el_self_attn l) x x x msk)) (\<lambda>x.
     bindM (getitem (el_sublayer l) 1) (\<lambda>s1.
     SublayerConnection_forward s1 x (PositionwiseFeedForward_forward (el_feed_forward l)))))"

record Encoder =
  enc_layers :: "EncoderLayer list"
  enc_norm :: LayerNorm

definition Encoder_forward :: "Encoder \<Rightarrow> t3 \<Rightarrow> bt3 option \<Rightarrow> t3 M" where
  "Encoder_forward e x msk =
     bindM (foldM (\<lambda>x layer. EncoderLayer_forward layer x msk) x (enc_layers e)) (\<lambda>x.
     LayerNorm_forward (enc_norm e) x)"

record DecoderLayer =
  dl_size :: int
  dl_self_attn :: MultiHeadedAttention
  dl_src_attn :: MultiHeadedAttention
  dl_feed_forward :: PositionwiseFeedForward
  dl_sublayer :: "SublayerConnection list"

definition DecoderLayer_forward ::
  "DecoderLayer \<Rightarrow> t3 \<Rightarrow> t3 \<Rightarrow> bt3 option \<Rightarrow> bt3 option \<Rightarrow> t3 M" where
  "DecoderLayer_forward l x memory src_mask tgt_mask =
     (let m = memory in
      bindM (getitem (dl_sublayer l) 0) (\<lambda>s0.
      bindM (SublayerConnection_forward s0 x
               (\<lambda>x. MultiHeadedAttention_forward (dl_self_attn l) x x x tgt_mask)) (\<lambda>x.
      bindM (getitem (dl_sublayer l) 1) (\<lambda>s1.
      bindM (SublayerConnection_forward s1 x
               (\<lambda>x. MultiHeadedAttention_forward (dl_src_attn l) x m m src_mask)) (\<lambda>x.
      bindM (getitem (dl_sublayer l) 2) (\<lambda>s2.
      SublayerConnection_forward s2 x
        (PositionwiseFeedForward_forward (dl_feed_forward l))))))))"

record Decoder =
  dec_layers :: "DecoderLayer list"
  dec_norm :: LayerNorm

definition Decoder_forward ::
  "Decoder \<Rightarrow> t3 \<Rightarrow> t3 \<Rightarrow> bt3 option \<Rightarrow> bt3 option \<Rightarrow> t3 M" where
  "Decoder_forward d x memory src_mask tgt_mask =
     bindM (foldM (\<lambda>x layer. DecoderLayer_forward layer x memory src_mask tgt_mask) x
              (dec_layers d)) (\<lambda>x.
     LayerNorm_forward (dec_norm d) x)"

section \<open>Generator and the encoder-decoder\<close>

record Generator =
  proj :: Linear

definition log_softmax :: "vec \<Rightarrow> vec" where
  "log_softmax r = map (\<lambda>s. s - ln (sum_list (map exp r))) r"

definition Generator_forward :: "Generator \<Rightarrow> t3 \<Rightarrow> t3 M" where
  "Generator_forward g x =
     bindM (Linear_forward (proj g) x) (\<lambda>y. returnM (map (map log_softmax) y))"

record Sequential =
  seq_embed :: Embeddings
  seq_position :: PositionalEncoding

definition Sequential_forward :: "Sequential \<Rightarrow> int list list \<Rightarrow> t3 M" where
  "Sequential_forward s x =
     bindM (Embeddings_forward (seq_embed s) x) (\<lambda>y.
     PositionalEncoding_forward (seq_position s) y)"

record EncoderDecoder =
  encoder :: Encoder
  decoder :: Decoder
  src_embed :: Sequential
  tgt_embed :: Sequential
  generator :: Generator

definition encode :: "EncoderDecoder \<Rightarrow> int list list \<Rightarrow> bt3 option \<Rightarrow> t3 M" where
  "encode m src src_mask =
     bindM (Sequential_forward (src_embed m) src) (\<lambda>src_embedds.
     Encoder_forward (encoder m) src_embedds src_mask)"

definition decode ::
  "EncoderDecoder \<Rightarrow> t3 \<Rightarrow> bt3 option \<Rightarrow> int list list \<Rightarrow> bt3 option \<Rightarrow> t3 M" where
  "decode m memory src_mask tgt tgt_mask =
     bindM (Sequential_forward (tgt_embed m) tgt) (\<lambda>target_embedds.
     Decoder_forward (decoder m) target_embedds memory src_mask tgt_mask)"

definition EncoderDecoder_forward ::
  "EncoderDecoder \<Rightarrow> int list list \<Rightarrow> int list list \<Rightarrow> bt3 option \<Rightarrow> bt3 option \<Rightarrow> t3 M" where
  "EncoderDecoder_forward m src tgt src_mask tgt_mask =
     bindM (encode m src src_mask) (\<lambda>memory.
     decode m memory src_mask tgt tgt_mask)"

section \<open>Allocation, random initialisation and deep copies\<close>

definition alloc :: "tensor \<Rightarrow> nat M" where
  "alloc t = (\<lambda>h. Inr (nxt h, h\<lparr>params := (params h)(nxt h := Some t), nxt := Suc (nxt h)\<rparr>))"

definition alloc_attn :: "nat M" where
  "alloc_attn = (\<lambda>h. Inr (nxt h, h\<lparr>attns := (attns h)(nxt h := Some None), nxt := Suc (nxt h)\<rparr>))"

definition draw :: "nat \<Rightarrow> vec M" where
  "draw n = (\<lambda>h. Inr (map (rng h) [0..<n], h\<lparr>rng := (\<lambda>i. rng h (i + n))\<rparr>))"

definition uniform_vec :: "nat \<Rightarrow> real \<Rightarrow> real \<Rightarrow> vec M" where
  "uniform_vec n lo hi = bindM (draw n) (\<lambda>us. returnM (map (\<lambda>u. lo + (hi - lo) * u) us))"

definition uniform_mat :: "nat \<Rightarrow> nat \<Rightarrow> real \<Rightarrow> real \<Rightarrow> mat M" where
  "uniform_mat r c lo hi = bindM (uniform_vec (r * c) lo hi) (\<lambda>v. returnM (chunks r c v))"

text \<open>Standard normal draws, two uniform draws each (Box-Muller).\<close>

definition normal_mat :: "nat \<Rightarrow> nat \<Rightarrow> mat M" where
  "normal_mat r c =
     bindM (draw (2 * (r * c))) (\<lambda>us.
     returnM (chunks r c
       (map (\<lambda>i. sqrt (- 2 * ln (1 - us ! (2 * i))) * cos (2 * pi * us ! (2 * i + 1)))
            [0..<r * c])))"

text \<open>
  A deep copy allocates a new cell for every parameter, buffer and \<open>attn\<close> attribute it
  reaches; the memo makes cells that are shared inside the copied object shared in the
  copy as well. Every call of \<open>deepcopy\<close> starts from an empty memo.
\<close>

type_synonym memo = "(nat \<Rightarrow> nat option) \<times> (nat \<Rightarrow> nat option)"
type_synonym 'a C = "memo \<times> heap \<Rightarrow> 'a \<times> (memo \<times> heap)"

definition copy_param :: "nat \<Rightarrow> nat C" where
  "copy_param a s =
     (case s of ((pm, am), h) \<Rightarrow>
        (case pm a of
           Some a' \<Rightarrow> (a', s)
         | None \<Rightarrow>
             (nxt h, ((pm(a := Some (nxt h)), am),
                      h\<lparr>params := (params h)(nxt h := params h a), nxt := Suc (nxt h)\<rparr>))))"

definition copy_attn :: "nat \<Rightarrow> nat C" where
  "copy_attn a s =
     (case s of ((pm, am), h) \<Rightarrow>
        (case am a of
           Some a' \<Rightarrow> (a', s)
         | None \<Rightarrow>
             (nxt h, ((pm, am(a := Some (nxt h))),
                      h\<lparr>attns := (attns h)(nxt h := attns h a), nxt := Suc (nxt h)\<rparr>))))"

definition deepcopy :: "('a \<Rightarrow> 'a C) \<Rightarrow> 'a \<Rightarrow> 'a M" where
  "deepcopy cp x = (\<lambda>h. case cp x ((Map.empty, Map.empty), h) of (y, (_, h')) \<Rightarrow> Inr (y, h'))"

fun clones_n :: "('a \<Rightarrow> 'a C) \<Rightarrow> 'a \<Rightarrow> nat \<Rightarrow> 'a list M" where
  "clones_n cp modl 0 = returnM []"
| "clones_n cp modl (Suc n) =
     bindM (deepcopy cp modl) (\<lambda>c. bindM (clones_n cp modl n) (\<lambda>cs. returnM (c # cs)))"

definition clones :: "('a \<Rightarrow> 'a C) \<Rightarrow> 'a \<Rightarrow> int \<Rightarrow> 'a list M" where
  "clones cp modl N = clones_n cp modl (nat N)"

section \<open>Constructors\<close>

definition nn_Linear_init :: "int \<Rightarrow> int \<Rightarrow> Linear M" where
  "nn_Linear_init in_features out_features =
     (if in_features < 0 \<or> out_features < 0 then liftE (Inl RuntimeError)
      else let bound = (if 0 < in_features then 1 / sqrt (real_of_int in_features) else 0) in
        bindM (uniform_mat (nat out_features) (nat in_features) (- bound) bound) (\<lambda>W.
        bindM (alloc (T2 W)) (\<lambda>w.
        bindM (uniform_vec (nat out_features) (- bound) bound) (\<lambda>b.
        bindM (alloc (T1 b)) (\<lambda>bi.
        returnM \<lparr>weight = w, bias = bi\<rparr>)))))"

definition copy_Linear :: "Linear \<Rightarrow> Linear C" where
  "copy_Linear l s =
     (case copy_param (weight l) s of (w, s1) \<Rightarrow>
      case copy_param (bias l) s1 of (b, s2) \<Rightarrow> (\<lparr>weight = w, bias = b\<rparr>, s2))"

definition Embeddings_init :: "int \<Rightarrow> int \<Rightarrow> Embeddings M" where
  "Embeddings_init d_model vocab =
     (if vocab < 0 \<or> d_model < 0 then liftE (Inl RuntimeError)
      else bindM (normal_mat (nat vocab) (nat d_model)) (\<lambda>W.
           bindM (alloc (T2 W)) (\<lambda>w.
           returnM \<lparr>lut = w, emb_d_model = d_model\<rparr>)))"

definition slice_cols :: "nat \<Rightarrow> nat \<Rightarrow> nat list" where
  "slice_cols start d = filter (\<lambda>j. start \<le> j \<and> even (j - start)) [0..<d]"

definition bidx :: "nat \<Rightarrow> nat \<Rightarrow> nat" where
  "bidx n i = (if n = 1 then 0 else i)"

text \<open>
  \<open>target[:, cols] = val\<close>, where \<open>val\<close> has \<open>c\<close> columns: the value must expand to
  the shape of the slice (equal sizes, or size 1 on the side of the value).
\<close>

definition setitem_cols :: "mat \<Rightarrow> nat list \<Rightarrow> nat \<Rightarrow> mat \<Rightarrow> error + mat" where
  "setitem_cols target cols c val =
     (if (c = length cols \<or> c = 1) \<and> (length val = length target \<or> length val = 1)
      then Inr (map (\<lambda>i. fold (\<lambda>n row. row[cols ! n := val ! bidx (length val) i ! bidx c n])
                              [0..<length cols] (target ! i))
                    [0..<length target])
      else Inl RuntimeError)"

definition PositionalEncoding_init :: "int \<Rightarrow> real \<Rightarrow> int \<Rightarrow> PositionalEncoding M" where
  "PositionalEncoding_init d_model dropout max_len =
     bindM (liftE (Dropout_init dropout)) (\<lambda>drop.
     if max_len < 0 \<or> d_model < 0 then liftE (Inl RuntimeError)
     else if d_model = 0 then liftE (Inl ZeroDivisionError)
     else
       let zeros = replicate (nat max_len) (replicate (nat d_model) 0);
           position = map real [0..<nat max_len];
           div_term = map (\<lambda>i. exp (real i * - (ln 10000 / real_of_int d_model)))
                          (slice_cols 0 (nat d_model));
           angles = map (\<lambda>p. map (\<lambda>d. p * d) div_term) position
       in
         bindM (liftE (setitem_cols zeros (slice_cols 0 (nat d_model)) (length div_term)
                         (map (map sin) angles))) (\<lambda>pe1.
         bindM (liftE (setitem_cols pe1 (slice_cols 1 (nat d_model)) (length div_term)
                         (map (map cos) angles))) (\<lambda>pe2.
         bindM (alloc (T3 [pe2])) (\<lambda>a.
         returnM \<lparr>pe_dropout = drop, pe = a\<rparr>))))"

definition copy_PositionalEncoding :: "PositionalEncoding \<Rightarrow> PositionalEncoding C" where
  "copy_PositionalEncoding m s =
     (case copy_param (pe m) s of (a, s1) \<Rightarrow> (m\<lparr>pe := a\<rparr>, s1))"

definition MultiHeadedAttention_init :: "int \<Rightarrow> int \<Rightarrow> real \<Rightarrow> MultiHeadedAttention M" where
  "MultiHeadedAttention_init h d_model dropout =
     (if h = 0 then liftE (Inl ZeroDivisionError)
      else if d_model mod h \<noteq> 0 then liftE (Inl AssertionError)
      else
        bindM (nn_Linear_init d_model d_model) (\<lambda>l.
        bindM (clones copy_Linear l 4) (\<lambda>ls.
        bindM alloc_attn (\<lambda>a.
        bindM (liftE (Dropout_init dropout)) (\<lambda>drop.
        returnM \<lparr>mha_d_k = d_model div h, mha_h = h, linears = ls, attn = a,
                 mha_dropout = drop\<rparr>)))))"

definition copy_MultiHeadedAttention :: "MultiHeadedAttention \<Rightarrow> MultiHeadedAttention C" where
  "copy_MultiHeadedAttention m s =
     (case map_accum copy_Linear (linears m) s of (ls, s1) \<Rightarrow>
      case copy_attn (attn m) s1 of (a, s2) \<Rightarrow> (m\<lparr>linears := ls, attn := a\<rparr>, s2))"

definition PositionwiseFeedForward_init :: "int \<Rightarrow> int \<Rightarrow> real \<Rightarrow> PositionwiseFeedForward M" where
  "PositionwiseFeedForward_init d_model d_ff dropout =
     bindM (nn_Linear_init d_model d_ff) (\<lambda>l1.
     bindM (nn_Linear_init d_ff d_model) (\<lambda>l2.
     bindM (liftE (Dropout_init dropout)) (\<lambda>drop.
     returnM \<lparr>w_1 = l1, w_2 = l2, ff_dropout = drop\<rparr>)))"

definition copy_PositionwiseFeedForward :: "PositionwiseFeedForward \<Rightarrow> PositionwiseFeedForward C" where
  "copy_PositionwiseFeedForward f s =
     (case copy_Linear (w_1 f) s of (l1, s1) \<Rightarrow>
      case copy_Linear (w_2 f) s1 of (l2, s2) \<Rightarrow> (f\<lparr>w_1 := l1, w_2 := l2\<rparr>, s2))"

definition LayerNorm_init :: "int \<Rightarrow> real \<Rightarrow> LayerNorm M" where
  "LayerNorm_init feature_size e =
     (if feature_size < 0 then liftE (Inl RuntimeError)
      else bindM (alloc (T1 (replicate (nat feature_size) 1))) (\<lambda>a.
           bindM (alloc (T1 (replicate (nat feature_size) 0))) (\<lambda>b.
           returnM \<lparr>a_2 = a, b_2 = b, eps = e\<rparr>)))"

definition copy_LayerNorm :: "LayerNorm \<Rightarrow> LayerNorm C" where
  "copy_LayerNorm n s =
     (case copy_param (a_2 n) s of (a, s1) \<Rightarrow>
      case copy_param (b_2 n) s1 of (b, s2) \<Rightarrow> (n\<lparr>a_2 := a, b_2 := b\<rparr>, s2))"

definition SublayerConnection_init :: "int \<Rightarrow> real \<Rightarrow> SublayerConnection M" where
  "SublayerConnection_init sz dropout =
     bindM (LayerNorm_init sz (1 / 1000000)) (\<lambda>n.
     bindM (liftE (Dropout_init dropout)) (\<lambda>drop.
     returnM \<lparr>sc_norm = n, sc_dropout = drop\<rparr>))"

definition copy_SublayerConnection :: "SublayerConnection \<Rightarrow> SublayerConnection C" where
  "copy_SublayerConnection c s =
     (case copy_LayerNorm (sc_norm c) s of (n, s1) \<Rightarrow> (c\<lparr>sc_norm := n\<rparr>, s1))"

definition EncoderLayer_init ::
  "int \<Rightarrow> MultiHeadedAttention \<Rightarrow> PositionwiseFeedForward \<Rightarrow> real \<Rightarrow> EncoderLayer M" where
  "EncoderLayer_init sz self_attn feed_forward dropout =
     bindM (SublayerConnection_init sz dropout) (\<lambda>c.
     bindM (clones copy_SublayerConnection c 2) (\<lambda>cs.
     returnM \<lparr>el_self_attn = self_attn, el_feed_forward = feed_forward,
              el_sublayer = cs, el_size = sz\<rparr>))"

definition copy_EncoderLayer :: "EncoderLayer \<Rightarrow> EncoderLayer C" where
  "copy_EncoderLayer l s =
     (case copy_MultiHeadedAttention (el_self_attn l) s of (a, s1) \<Rightarrow>
      case copy_PositionwiseFeedForward (el_feed_forward l) s1 of (f, s2) \<Rightarrow>
      case map_accum copy_SublayerConnection (el_sublayer l) s2 of (cs, s3) \<Rightarrow>
        (l\<lparr>el_self_attn := a, el_feed_forward := f, el_sublayer := cs\<rparr>, s3))"

definition Encoder_init :: "EncoderLayer \<Rightarrow> int \<Rightarrow> Encoder M" where
  "Encoder_init layer N =
     bindM (clones copy_EncoderLayer layer N) (\<lambda>ls.
     bindM (LayerNorm_init (el_size layer) (1 / 1000000)) (\<lambda>n.
     returnM \<lparr>enc_layers = ls, enc_norm = n\<rparr>))"

definition DecoderLayer_init ::
  "int \<Rightarrow> MultiHeadedAttention \<Rightarrow> MultiHeadedAttention \<Rightarrow> PositionwiseFeedForward \<Rightarrow> real
     \<Rightarrow> DecoderLayer M" where
  "DecoderLayer_init sz self_attn src_attn feed_forward dropout =
     bindM (SublayerConnection_init sz dropout) (\<lambda>c.
     bindM (clones copy_SublayerConnection c 3) (\<lambda>cs.
     returnM \<lparr>dl_size = sz, dl_self_attn = self_attn, dl_src_attn = src_attn,
              dl_feed_forward = feed_forward, dl_sublayer = cs\<rparr>))"

definition copy_DecoderLayer :: "DecoderLayer \<Rightarrow> DecoderLayer C" where
  "copy_DecoderLayer l s =
     (case copy_MultiHeadedAttention (dl_self_attn l) s of (a, s1) \<Rightarrow>
      case copy_MultiHeadedAttention (dl_src_attn l) s1 of (b, s2) \<Rightarrow>
      case copy_PositionwiseFeedForward (dl_feed_forward l) s2 of (f, s3) \<Rightarrow>
      case map_accum copy_SublayerConnection (dl_sublayer l) s3 of (cs, s4) \<Rightarrow>
        (l\<lparr>dl_self_attn := a, dl_src_attn := b, dl_feed_forward := f, dl_sublayer := cs\<rparr>, s4))"

definition Decoder_init :: "DecoderLayer \<Rightarrow> int \<Rightarrow> Decoder M" where
  "Decoder_init layer N =
     bindM (clones copy_DecoderLayer layer N) (\<lambda>ls.
     bindM (LayerNorm_init (dl_size layer) (1 / 1000000)) (\<lambda>n.
     returnM \<lparr>dec_layers = ls, dec_norm = n\<rparr>))"

definition Generator_init :: "int \<Rightarrow> int \<Rightarrow> Generator M" where
  "Generator_init d_model vocab =
     bindM (nn_Linear_init d_model vocab) (\<lambda>l. returnM \<lparr>proj = l\<rparr>)"

section \<open>Parameters in registration order\<close>

definition Linear_parameters :: "Linear \<Rightarrow> nat list" where
  "Linear_parameters l = [weight l, bias l]"

definition MultiHeadedAttention_parameters :: "MultiHeadedAttention \<Rightarrow> nat list" where
  "MultiHeadedAttention_parameters m = concat (map Linear_parameters (linears m))"

definition PositionwiseFeedForward_parameters :: "PositionwiseFeedForward \<Rightarrow> nat list" where
  "PositionwiseFeedForward_parameters f = Linear_parameters (w_1 f) @ Linear_parameters (w_2 f)"

definition LayerNorm_parameters :: "LayerNorm \<Rightarrow> nat list" where
  "LayerNorm_parameters n = [a_2 n, b_2 n]"

definition SublayerConnection_parameters :: "SublayerConnection \<Rightarrow> nat list" where
  "SublayerConnection_parameters c = LayerNorm_parameters (sc_norm c)"

definition EncoderLayer_parameters :: "EncoderLayer \<Rightarrow> nat list" where
  "EncoderLayer_parameters l =
     MultiHeadedAttention_parameters (el_self_attn l)
     @ PositionwiseFeedForward_parameters (el_feed_forward l)
     @ concat (map SublayerConnection_parameters (el_sublayer l))"

definition DecoderLayer_parameters :: "DecoderLayer \<Rightarrow> nat list" where
  "DecoderLayer_parameters l =
     MultiHeadedAttention_parameters (dl_self_attn l)
     @ MultiHeadedAttention_parameters (dl_src_attn l)
     @ PositionwiseFeedForward_parameters (dl_feed_forward l)
     @ concat (map SublayerConnection_parameters (dl_sublayer l))"

definition Encoder_parameters :: "Encoder \<Rightarrow> nat list" where
  "Encoder_parameters e =
     concat (map EncoderLayer_parameters (enc_layers e)) @ LayerNorm_parameters (enc_norm e)"

definition Decoder_parameters :: "Decoder \<Rightarrow> nat list" where
  "Decoder_parameters d =
     concat (map DecoderLayer_parameters (dec_layers d)) @ LayerNorm_parameters (dec_norm d)"

definition EncoderDecoder_parameters :: "EncoderDecoder \<Rightarrow> nat list" where
  "EncoderDecoder_parameters m =
     remdups (Encoder_parameters (encoder m) @ Decoder_parameters (decoder m)
       @ [lut (seq_embed (src_embed m))] @ [lut (seq_embed (tgt_embed m))]
       @ Linear_parameters (proj (generator m)))"

section \<open>The model factory\<close>

text \<open>
  Glorot initialisation of one parameter: only parameters of rank 2 are redrawn, from
  the uniform distribution on [-a, a] with a = sqrt (6 / (fan_in + fan_out)).
\<close>

definition xavier_uniform :: "nat \<Rightarrow> unit M" where
  "xavier_uniform p =
     (\<lambda>h. case params h p of
         Some (T2 W) \<Rightarrow>
           (let r = length W; c = size1 W; a = sqrt (6 / (real c + real r)) in
            bindM (uniform_mat r c (- a) a)
              (\<lambda>W' h'. Inr ((), h'\<lparr>params := (params h')(p := Some (T2 W'))\<rparr>)) h)
       | _ \<Rightarrow> Inr ((), h))"

definition make_model ::
  "int \<Rightarrow> int \<Rightarrow> int \<Rightarrow> int \<Rightarrow> int \<Rightarrow> int \<Rightarrow> real \<Rightarrow> EncoderDecoder M" where
  "make_model src_vocab tgt_vocab N d_model d_ff h dropout =
     bindM (MultiHeadedAttention_init h d_model (1 / 10)) (\<lambda>attn0.
     bindM (PositionwiseFeedForward_init d_model d_ff dropout) (\<lambda>ff.
     bindM (PositionalEncoding_init d_model dropout 5000) (\<lambda>position.
     bindM (deepcopy copy_MultiHeadedAttention attn0) (\<lambda>a1.
     bindM (deepcopy copy_PositionwiseFeedForward ff) (\<lambda>f1.
     bindM (EncoderLayer_init d_model a1 f1 dropout) (\<lambda>el.
     bindM (Encoder_init el N) (\<lambda>enc.
     bindM (deepcopy copy_MultiHeadedAttention attn0) (\<lambda>a2.
     bindM (deepcopy copy_MultiHeadedAttention attn0) (\<lambda>a3.
     bindM (deepcopy copy_PositionwiseFeedForward ff) (\<lambda>f2.
     bindM (DecoderLayer_init d_model a2 a3 f2 dropout) (\<lambda>dl.
     bindM (Decoder_init dl N) (\<lambda>dec.
     bindM (Embeddings_init d_model src_vocab) (\<lambda>e1.
     bindM (deepcopy copy_PositionalEncoding position) (\<lambda>p1.
     bindM (Embeddings_init d_model tgt_vocab) (\<lambda>e2.
     bindM (deepcopy copy_PositionalEncoding position) (\<lambda>p2.
     bindM (Generator_init d_model tgt_vocab) (\<lambda>gen.
     (let model = \<lparr>encoder = enc, decoder = dec,
                    src_embed = \<lparr>seq_embed = e1, seq_position = p1\<rparr>,
                    tgt_embed = \<lparr>seq_embed = e2, seq_position = p2\<rparr>,
                    generator = gen\<rparr>
      in bindM (foldM (\<lambda>_ p. xavier_uniform p) () (EncoderDecoder_parameters model))
           (\<lambda>_. returnM model)))))))))))))))))))"

section \<open>Auxiliary notions used in the statements\<close>

text \<open>The entry that index (b, k, i, j) reads from a tensor under broadcasting.\<close>

definition bget4 :: "'a list list list list \<Rightarrow> nat \<Rightarrow> nat \<Rightarrow> nat \<Rightarrow> nat \<Rightarrow> 'a" where
  "bget4 t b k i j =
     (let t1 = t ! bidx (length t) b; t2 = t1 ! bidx (length t1) k;
          t3 = t2 ! bidx (length t2) i
      in t3 ! bidx (length t3) j)"

text \<open>
  Dropout that leaves the weights as they are: none was passed, or the one passed
  returns its input and draws nothing (inference mode, or rate 0).
\<close>

definition inactive :: "(t4 \<Rightarrow> t4 M) option \<Rightarrow> bool" where
  "inactive dropout \<longleftrightarrow> (case dropout of None \<Rightarrow> True | Some d \<Rightarrow> (\<forall>w h. d w h = Inr (w, h)))"

text \<open>
  Operands of bounded magnitude: every entry of the tensor is at most \<open>c\<close> in absolute
  value, and every row of the tensor has at most \<open>n\<close> entries.
\<close>

definition entries_le :: "real \<Rightarrow> t4 \<Rightarrow> bool" where
  "entries_le c t \<longleftrightarrow> (\<forall>x \<in> set t. \<forall>y \<in> set x. \<forall>r \<in> set y. \<forall>v \<in> set r. \<bar>v\<bar> \<le> c)"

definition rows_le :: "nat \<Rightarrow> t4 \<Rightarrow> bool" where
  "rows_le n t \<longleftrightarrow> (\<forall>x \<in> set t. \<forall>y \<in> set x. \<forall>r \<in> set y. length r \<le> n)"

text \<open>
  Modelled from the spec: the logical AND of two masks, with broadcasting, by which the
  caller combines the target padding mask with the causal mask. The source file has no
  such function: the masks reach \<open>DecoderLayer.forward\<close> already combined.
\<close>

definition mask_and :: "bt3 \<Rightarrow> bt3 \<Rightarrow> error + bt3" where
  "mask_and = bc_map2 (bc_map2 (bc_map2 (\<lambda>a b. Inr (a \<and> b))))"

text \<open>A tensor of shape (B, T, F).\<close>

definition has_shape3 :: "nat \<Rightarrow> nat \<Rightarrow> nat \<Rightarrow> 'a list list list \<Rightarrow> bool" where
  "has_shape3 B T F x \<longleftrightarrow>
     length x = B \<and> (\<forall>r \<in> set x. length r = T \<and> (\<forall>v \<in> set r. length v = F))"

text \<open>A store with nothing allocated, whose generator only draws 0.\<close>

definition empty_heap :: heap where
  "empty_heap = \<lparr>params = (\<lambda>_. None), attns = (\<lambda>_. None), nxt = 0, rng = (\<lambda>_. 0)\<rparr>"

text \<open>
  Two stores that agree on everything but the \<open>attn\<close> attributes.
\<close>

definition same_params :: "heap \<Rightarrow> heap \<Rightarrow> bool" where
  "same_params h1 h2 \<longleftrightarrow> params h1 = params h2 \<and> nxt h1 = nxt h2 \<and> rng h1 = rng h2"

text \<open>
  A computation is blind to the \<open>attn\<close> attributes when, started in two such stores,
  it raises the same error or returns the same value, leaves parameters and buffers as
  they were, and leaves the generator in the same state.
\<close>

definition attn_blind :: "'a M \<Rightarrow> bool" where
  "attn_blind m \<longleftrightarrow>
     (\<forall>h1 h2. same_params h1 h2 \<longrightarrow>
        (case m h1 of
           Inl e \<Rightarrow> m h2 = Inl e
         | Inr (x, h1') \<Rightarrow>
             params h1' = params h1 \<and> nxt h1' = nxt h1 \<and>
             (\<exists>h2'. m h2 = Inr (x, h2') \<and> same_params h1' h2')))"

text \<open>
  Bookkeeping for deep copies. A later copy state extends an earlier one when the
  allocation pointer has not gone back, every memo entry is kept, and every new memo
  entry points to a cell allocated in between. A list of addresses is covered by a copy
  state when each of them is the image of a memo entry. A copy function is fresh when
  every call extends the state and returns an object whose parameters are covered.
\<close>

definition ext :: "memo \<times> heap \<Rightarrow> memo \<times> heap \<Rightarrow> bool" where
  "ext s s' \<longleftrightarrow>
     nxt (snd s) \<le> nxt (snd s')
     \<and> (\<forall>a b. fst (fst s') a = Some b \<longrightarrow>
            fst (fst s) a = Some b \<or> (nxt (snd s) \<le> b \<and> b < nxt (snd s')))
     \<and> (\<forall>a b. fst (fst s) a = Some b \<longrightarrow> fst (fst s') a = Some b)"

definition covered :: "memo \<times> heap \<Rightarrow> nat list \<Rightarrow> bool" where
  "covered s bs \<longleftrightarrow> (\<forall>b \<in> set bs. \<exists>a. fst (fst s) a = Some b)"

definition fresh_copy :: "('a \<Rightarrow> 'a C) \<Rightarrow> ('a \<Rightarrow> nat list) \<Rightarrow> bool" where
  "fresh_copy cp ps \<longleftrightarrow> (\<forall>x s y s'. cp x s = (y, s') \<longrightarrow> ext s s' \<and> covered s' (ps y))"



text \<open>A computation that returns, from every store, a value with property \<open>P\<close>.\<close>

definition returns :: "('a \<Rightarrow> bool) \<Rightarrow> 'a M \<Rightarrow> bool" where
  "returns P m \<longleftrightarrow> (\<forall>h. \<exists>x h'. m h = Inr (x, h') \<and> P x)"

section \<open>A small model in inference mode\<close>

text \<open>
  Model size 2, one head, feed-forward width 2, one encoder and one decoder layer,
  vocabularies of two tokens, positional encodings for one position. Every linear layer
  and lookup table is zero, every normalization has scale 1 and shift 0, and dropout is
  switched off (inference mode). No two modules share a parameter.
\<close>

definition example_heap :: heap where
  "example_heap =
     \<lparr>params = (\<lambda>a. if a < 34 then (if even a then Some (T2 [[0, 0], [0, 0]]) else Some (T1 [0, 0]))
                     else if a < 48 then (if even a then Some (T1 [1, 1]) else Some (T1 [0, 0]))
                     else if a < 50 then Some (T2 [[0, 0], [0, 0]])
                     else if a < 52 then Some (T3 [[[0, 1]]])
                     else None),
      attns = (\<lambda>a. if 52 \<le> a \<and> a < 55 then Some None else None),
      nxt = 55,
      rng = (\<lambda>_. 0)\<rparr>"

definition example_linear :: "nat \<Rightarrow> Linear" where
  "example_linear k = \<lparr>weight = 2 * k, bias = 2 * k + 1\<rparr>"

definition example_dropout :: Dropout where
  "example_dropout = \<lparr>dropout_p = 1 / 10, training = False\<rparr>"

definition example_norm :: "nat \<Rightarrow> LayerNorm" where
  "example_norm k = \<lparr>a_2 = 34 + 2 * k, b_2 = 35 + 2 * k, eps = 1 / 1000000\<rparr>"

definition example_sublayer :: "nat \<Rightarrow> SublayerConnection" where
  "example_sublayer k = \<lparr>sc_norm = example_norm k, sc_dropout = example_dropout\<rparr>"

definition example_attention :: "nat \<Rightarrow> nat \<Rightarrow> MultiHeadedAttention" where
  "example_attention k a =
     \<lparr>mha_d_k = 2, mha_h = 1,
      linears = [example_linear k, example_linear (k + 1), example_linear (k + 2),
                 example_linear (k + 3)],
      attn = a, mha_dropout = example_dropout\<rparr>"

definition example_decoder_layer :: DecoderLayer where
  "example_decoder_layer =
     \<lparr>dl_size = 2, dl_self_attn = example_attention 0 52, dl_src_attn = example_attention 4 53,
      dl_feed_forward = \<lparr>w_1 = example_linear 8, w_2 = example_linear 9,
                         ff_dropout = example_dropout\<rparr>,
      dl_sublayer = [example_sublayer 0, example_sublayer 1, example_sublayer 2]\<rparr>"

definition example_encoder_layer :: EncoderLayer where
  "example_encoder_layer =
     \<lparr>el_self_attn = example_attention 10 54,
      el_feed_forward = \<lparr>w_1 = example_linear 14, w_2 = example_linear 15,
                         ff_dropout = example_dropout\<rparr>,
      el_sublayer = [example_sublayer 3, example_sublayer 4], el_size = 2\<rparr>"

definition example_model :: EncoderDecoder where
  "example_model =
     \<lparr>encoder = \<lparr>enc_layers = [example_encoder_layer], enc_norm = example_norm 5\<rparr>,
      decoder = \<lparr>dec_layers = [example_decoder_layer], dec_norm = example_norm 6\<rparr>,
      src_embed = \<lparr>seq_embed = \<lparr>lut = 48, emb_d_model = 2\<rparr>,
                   seq_position = \<lparr>pe_dropout = example_dropout, pe = 50\<rparr>\<rparr>,
      tgt_embed = \<lparr>seq_embed = \<lparr>lut = 49, emb_d_model = 2\<rparr>,
                   seq_position = \<lparr>pe_dropout = example_dropout, pe = 51\<rparr>\<rparr>,
      generator = \<lparr>proj = example_linear 16\<rparr>\<rparr>"

section \<open>Properties of subsequent_mask\<close>

lemma astype_uint8_zero_iff: "astype_uint8 1 \<noteq> 0" "astype_uint8 0 = 0"
  by (simp_all add: astype_uint8_def)

lemma subsequent_mask_rows:
  assumes "0 \<le> n"
  shows "subsequent_mask n =
    Inr [map (\<lambda>i. map (\<lambda>j. j \<le> i) [0..<nat n]) [0..<nat n]]"
  using assms
  by (simp add: subsequent_mask_def np_ones_def np_triu_def triu_row_def
      astype_uint8_zero_iff o_def)

text \<open>
  C4. The causal mask allows entry (i, j) exactly when j \<le> i; for size 4 the rows are
  [T,F,F,F], [T,T,F,F], [T,T,T,F], [T,T,T,T].
\<close>

theorem subsequent_mask_causal:
  "(\<forall>n i j. 0 \<le> n \<longrightarrow> i < nat n \<longrightarrow> j < nat n \<longrightarrow>
      (\<exists>m. subsequent_mask n = Inr [m] \<and> m ! i ! j = (j \<le> i)))
   \<and> subsequent_mask 4 =
       Inr [[[True, False, False, False],
             [True, True, False, False],
             [True, True, True, False],
             [True, True, True, True]]]"
proof (intro conjI allI impI)
  fix n :: int and i j :: nat
  assume "0 \<le> n" "i < nat n" "j < nat n"
  then show "\<exists>m. subsequent_mask n = Inr [m] \<and> m ! i ! j = (j \<le> i)"
    by (simp add: subsequent_mask_rows)
next
  have "[0..<nat 4] = [0, 1, 2, 3]"
    by (simp add: upt_conv_Cons)
  then show "subsequent_mask 4 =
       Inr [[[True, False, False, False],
             [True, True, False, False],
             [True, True, True, False],
             [True, True, True, True]]]"
    by (simp add: subsequent_mask_rows)
qed

theorem subsequent_mask_causal_witness:
  "(0::int) \<le> 4 \<and> (0::nat) < nat 4 \<and> (1::nat) < nat 4 \<and>
   (\<exists>m. subsequent_mask 4 = Inr [m] \<and> m ! 0 ! 1 = ((1::nat) \<le> 0))"
  using subsequent_mask_causal by simp

text \<open>
  C10. For every size \<ge> 1 the result has shape (1, size, size): one matrix with
  size rows of size boolean entries each.
\<close>

theorem subsequent_mask_shape:
  "1 \<le> n \<Longrightarrow>
   \<exists>m. subsequent_mask n = Inr [m] \<and> length m = nat n \<and> (\<forall>r \<in> set m. length r = nat n)"
  by (auto simp add: subsequent_mask_rows)

theorem subsequent_mask_shape_witness:
  "(1::int) \<le> 3 \<and>
   (\<exists>m. subsequent_mask 3 = Inr [m] \<and> length m = nat 3 \<and> (\<forall>r \<in> set m. length r = nat 3))"
  using subsequent_mask_shape [of 3] by simp

section \<open>Basic facts about fallible maps\<close>

lemma bindE_simps: "bindE (Inl e) f = Inl e" "bindE (Inr x) f = f x"
  by (simp_all add: bindE_def)

lemma mapE_Cons_Inr:
  "mapE f (x # xs) = Inr ys \<longleftrightarrow> (\<exists>y zs. ys = y # zs \<and> f x = Inr y \<and> mapE f xs = Inr zs)"
  by (auto simp: bindE_def split: sum.splits)

lemma mapE_Inr_iff:
  "mapE f xs = Inr ys \<longleftrightarrow> length ys = length xs \<and> (\<forall>i<length xs. f (xs ! i) = Inr (ys ! i))"
proof (induction xs arbitrary: ys)
  case Nil
  then show ?case by auto
next
  case (Cons x xs)
  show ?case
    by (cases ys) (auto simp: mapE_Cons_Inr Cons.IH All_less_Suc2 simp del: mapE.simps)
qed


lemma bc_map2_same:
  "length xs = length ys \<Longrightarrow>
   bc_map2 g xs ys = Inr zs \<longleftrightarrow>
     length zs = length xs \<and> (\<forall>i<length xs. g (xs ! i) (ys ! i) = Inr (zs ! i))"
  by (simp add: bc_map2_def mapE_Inr_iff)

section \<open>Layer normalization\<close>


lemma sum_list_divide: "sum_list (map (\<lambda>v. f v / c) xs) = sum_list (map f xs) / (c::real)"
  by (induction xs) (simp_all add: add_divide_distrib)











section \<open>Scaled dot-product attention: the weights\<close>

lemma hd_single: "length xs = Suc 0 \<Longrightarrow> hd xs = xs ! 0"
  by (cases xs) simp_all

lemma bc_map2_Inr_nth:
  assumes "bc_map2 g xs ys = Inr zs" "i < length zs"
  shows "g (xs ! bidx (length xs) i) (ys ! bidx (length ys) i) = Inr (zs ! i)"
  using assms
  by (auto simp: bc_map2_def mapE_Inr_iff bidx_def hd_single split: if_splits)

lemma sum_exp_nonneg: "0 \<le> sum_list (map exp (r :: real list))"
  by (rule sum_list_nonneg) auto

lemma sum_exp_pos: "r \<noteq> [] \<Longrightarrow> 0 < sum_list (map exp (r :: real list))"
  using sum_exp_nonneg[of "tl r"] by (cases r) (simp_all add: add_pos_nonneg)

lemma softmax_sum:
  assumes "r \<noteq> []"
  shows "sum_list (softmax r) = 1"
proof -
  have "0 < sum_list (map exp r)"
    using assms by (rule sum_exp_pos)
  then show ?thesis
    by (simp add: softmax_def sum_list_divide)
qed

lemma exp_le_sum_exp:
  "j < length r \<Longrightarrow> exp (r ! j) \<le> sum_list (map exp (r :: real list))"
proof (induction r arbitrary: j)
  case Nil
  then show ?case by simp
next
  case (Cons a r)
  show ?case
  proof (cases j)
    case 0
    then show ?thesis using sum_exp_nonneg[of r] by simp
  next
    case (Suc k)
    then have "exp (r ! k) \<le> sum_list (map exp r)"
      using Cons by simp
    then show ?thesis using Suc by (simp add: add_increasing)
  qed
qed

lemma exp_14: "exp (- 14 :: real) < 1 / 1000000"
proof -
  have "(41 / 32 :: real) \<le> exp (1 / 4)"
    using exp_lower_Taylor_quadratic[of "1 / 4 :: real"] by (simp add: power2_eq_square)
  then have "(41 / 32 :: real) ^ 56 \<le> exp (1 / 4) ^ 56"
    by (intro power_mono) simp_all
  also have "exp (1 / 4 :: real) ^ 56 = exp 14"
    by (simp add: exp_of_nat_mult[symmetric])
  finally have "(1000000 :: real) < exp 14"
    by (simp add: power_divide)
  then show ?thesis
    by (simp add: exp_minus field_simps)
qed

lemma softmax_masked_small:
  assumes "j < length r" "j' < length r" "r ! j = - 1000000000" "- 1000000000 + 14 \<le> r ! j'"
  shows "softmax r ! j < 1 / 1000000"
proof -
  have pos: "0 < exp (r ! j')" by simp
  have "softmax r ! j = exp (r ! j) / sum_list (map exp r)"
    using assms(1) by (simp add: softmax_def)
  also have "\<dots> \<le> exp (r ! j) / exp (r ! j')"
  proof -
    have "r \<noteq> []" using assms(2) by auto
    then have "0 < sum_list (map exp r)" by (rule sum_exp_pos)
    then show ?thesis
      using exp_le_sum_exp[OF assms(2)] by (intro divide_left_mono) simp_all
  qed
  also have "\<dots> = exp (r ! j - r ! j')"
    by (simp add: exp_diff)
  also have "\<dots> \<le> exp (- 14)"
    using assms(3,4) by simp
  also note exp_14
  finally show ?thesis .
qed

lemma monad_simps:
  "returnM x h = Inr (x, h)"
  "liftE (Inr x) h = Inr (x, h)"
  "liftE (Inl e) h = Inl e"
  "bindM m f h = (case m h of Inl e \<Rightarrow> Inl e | Inr (x, h') \<Rightarrow> f x h')"
  by (simp_all add: returnM_def liftE_def bindM_def)

lemma liftE_Inr_iff: "liftE r h = Inr (x, h') \<longleftrightarrow> r = Inr x \<and> h' = h"
  by (cases r) (auto simp: liftE_def)

lemma bindE_Inr_iff: "bindE m f = Inr y \<longleftrightarrow> (\<exists>x. m = Inr x \<and> f x = Inr y)"
  by (cases m) (simp_all add: bindE_def)

lemma bindM_Inr: "m h = Inr (x, h') \<Longrightarrow> bindM m f h = f x h'"
  by (simp add: bindM_def)

lemma bindM_Inl: "m h = Inl e \<Longrightarrow> bindM m f h = Inl e"
  by (simp add: bindM_def)

lemma bindM_Inr_iff:
  "bindM m f h = Inr r \<longleftrightarrow> (\<exists>x h'. m h = Inr (x, h') \<and> f x h' = Inr r)"
  by (auto simp: bindM_def split: sum.splits)

lemma masked_fill_nth:
  assumes "masked_fill sc m = Inr sc'"
    and "b < length sc'" "k < length (sc' ! b)" "i < length (sc' ! b ! k)"
    and "j < length (sc' ! b ! k ! i)"
  shows "sc' ! b ! k ! i ! j = (if bget4 m b k i j then bget4 sc b k i j else - 1000000000)"
proof -
  note a1 = bc_map2_Inr_nth[OF assms(1)[unfolded masked_fill_def] assms(2)]
  note a2 = bc_map2_Inr_nth[OF a1 assms(3)]
  note a3 = bc_map2_Inr_nth[OF a2 assms(4)]
  note a4 = bc_map2_Inr_nth[OF a3 assms(5)]
  show ?thesis
    using a4 by (auto simp: fill0_def bget4_def Let_def)
qed

lemma bc_map2_index:
  assumes "bc_map2 g xs ys = Inr zs" "i < length zs"
  shows "bidx (length xs) i < length xs" "bidx (length ys) i < length ys"
  using assms
  by (auto simp: bc_map2_def mapE_Inr_iff bidx_def split: if_splits)

lemma dot_bound:
  assumes "\<forall>v \<in> set r. \<bar>v\<bar> \<le> B" "\<forall>v \<in> set c. \<bar>v\<bar> \<le> B"
  shows "\<bar>dot r c\<bar> \<le> real (length r) * (B * B)"
  using assms
proof (induction r arbitrary: c)
  case Nil
  then show ?case by (simp add: dot_def)
next
  case (Cons a r)
  have B: "0 \<le> B" using Cons.prems(1) by fastforce
  show ?case
  proof (cases c)
    case Nil
    then show ?thesis using B by (simp add: dot_def)
  next
    case (Cons b c')
    have "\<bar>a\<bar> \<le> B" "\<bar>b\<bar> \<le> B"
      using Cons.prems Cons by simp_all
    then have "\<bar>a\<bar> * \<bar>b\<bar> \<le> B * B"
      using B by (intro mult_mono) simp_all
    then have "\<bar>a * b\<bar> \<le> B * B"
      by (simp add: abs_mult)
    moreover have "\<bar>dot r c'\<bar> \<le> real (length r) * (B * B)"
      using Cons.IH[of c'] Cons.prems Cons by simp
    moreover have "dot (a # r) c = a * b + dot r c'"
      using Cons by (simp add: dot_def)
    ultimately show ?thesis
      by (simp add: algebra_simps)
  qed
qed

lemma mapE4_nth:
  assumes "mapE (mapE (mapE (mapE f))) s = Inr t"
    and "b < length t" "k < length (t ! b)" "i < length (t ! b ! k)" "j < length (t ! b ! k ! i)"
  shows "b < length s \<and> k < length (s ! b) \<and> i < length (s ! b ! k) \<and> j < length (s ! b ! k ! i)
     \<and> f (s ! b ! k ! i ! j) = Inr (t ! b ! k ! i ! j)"
proof -
  from assms(1,2) have 1: "b < length s" "mapE (mapE (mapE f)) (s ! b) = Inr (t ! b)"
    by (simp_all add: mapE_Inr_iff)
  from 1(2) assms(3) have 2: "k < length (s ! b)" "mapE (mapE f) (s ! b ! k) = Inr (t ! b ! k)"
    by (simp_all add: mapE_Inr_iff)
  from 2(2) assms(4) have 3: "i < length (s ! b ! k)" "mapE f (s ! b ! k ! i) = Inr (t ! b ! k ! i)"
    by (simp_all add: mapE_Inr_iff)
  from 3(2) assms(5) have 4: "j < length (s ! b ! k ! i)"
    "f (s ! b ! k ! i ! j) = Inr (t ! b ! k ! i ! j)"
    by (simp_all add: mapE_Inr_iff)
  show ?thesis using 1 2 3 4 by simp
qed

lemma sqrt_nat_ge_1: "sqrt (real d) \<noteq> 0 \<Longrightarrow> 1 \<le> sqrt (real d)"
  by (cases d) simp_all

lemma attention_scores_bound:
  assumes sc: "attention_scores query key = Inr sc"
    and q: "entries_le 100 query" "rows_le 10000 query" and ke: "entries_le 100 key"
    and r: "b < length sc" "k < length (sc ! b)" "i < length (sc ! b ! k)"
      "j < length (sc ! b ! k ! i)"
  shows "\<bar>sc ! b ! k ! i ! j\<bar> \<le> 100000000"
proof -
  from sc obtain s where s: "matmul4_nt query key = Inr s"
    and d: "mapE (mapE (mapE (mapE (\<lambda>v. divide_chk v (sqrt (real (size_last query))))))) s = Inr sc"
    by (auto simp: attention_scores_def bindE_Inr_iff)
  from mapE4_nth[OF d r] have rs: "b < length s" "k < length (s ! b)" "i < length (s ! b ! k)"
    "j < length (s ! b ! k ! i)"
    and v: "divide_chk (s ! b ! k ! i ! j) (sqrt (real (size_last query))) = Inr (sc ! b ! k ! i ! j)"
    by simp_all
  from v have nz: "sqrt (real (size_last query)) \<noteq> 0"
    and e: "sc ! b ! k ! i ! j = s ! b ! k ! i ! j / sqrt (real (size_last query))"
    by (auto simp: divide_chk_def split: if_splits)
  have ge: "1 \<le> sqrt (real (size_last query))"
    using nz by (rule sqrt_nat_ge_1)
  let ?bq = "bidx (length query) b" and ?bk = "bidx (length key) b"
  note s' = s[unfolded matmul4_nt_def]
  note a1 = bc_map2_Inr_nth[OF s' rs(1)]
  note i1 = bc_map2_index[OF s' rs(1)]
  let ?kq = "bidx (length (query ! ?bq)) k" and ?kk = "bidx (length (key ! ?bk)) k"
  note a2 = bc_map2_Inr_nth[OF a1 rs(2)]
  note i2 = bc_map2_index[OF a1 rs(2)]
  let ?Q = "query ! ?bq ! ?kq" and ?K = "key ! ?bk ! ?kk"
  from a2 have m: "s ! b ! k = map (\<lambda>r. map (dot r) ?K) ?Q"
    by (auto simp: matmul_nt_def split: if_splits)
  have li: "i < length ?Q" using rs(3) m by simp
  have lj: "j < length ?K" using rs(4) m li by simp
  have val: "s ! b ! k ! i ! j = dot (?Q ! i) (?K ! j)"
    using m li lj by simp
  have Qin: "?Q \<in> set (query ! ?bq)" "query ! ?bq \<in> set query" "?Q ! i \<in> set ?Q"
    using i1(1) i2(1) li by simp_all
  have Kin: "?K \<in> set (key ! ?bk)" "key ! ?bk \<in> set key" "?K ! j \<in> set ?K"
    using i1(2) i2(2) lj by simp_all
  have bq: "\<forall>v \<in> set (?Q ! i). \<bar>v\<bar> \<le> 100" and lq: "length (?Q ! i) \<le> 10000"
    using q Qin unfolding entries_le_def rows_le_def by blast+
  have bk: "\<forall>v \<in> set (?K ! j). \<bar>v\<bar> \<le> 100"
    using ke Kin unfolding entries_le_def by blast
  have "\<bar>s ! b ! k ! i ! j\<bar> \<le> real (length (?Q ! i)) * (100 * 100)"
    unfolding val by (rule dot_bound[OF bq bk])
  also have "\<dots> \<le> 10000 * (100 * 100)"
    using lq by simp
  finally have sb: "\<bar>s ! b ! k ! i ! j\<bar> \<le> 100000000" by simp
  have "\<bar>sc ! b ! k ! i ! j\<bar> = \<bar>s ! b ! k ! i ! j\<bar> / sqrt (real (size_last query))"
    using ge by (simp add: e)
  also have "\<dots> \<le> \<bar>s ! b ! k ! i ! j\<bar> / 1"
    using ge by (intro divide_left_mono) simp_all
  finally show ?thesis using sb by simp
qed

lemma masked_fill_index:
  assumes "masked_fill sc m = Inr sc'"
    and "b < length sc'" "k < length (sc' ! b)" "i < length (sc' ! b ! k)"
    and "j < length (sc' ! b ! k ! i)"
  shows "\<exists>b1 k1 i1 j1. b1 < length sc \<and> k1 < length (sc ! b1) \<and> i1 < length (sc ! b1 ! k1)
      \<and> j1 < length (sc ! b1 ! k1 ! i1) \<and> bget4 sc b k i j = sc ! b1 ! k1 ! i1 ! j1"
proof -
  note m = assms(1)[unfolded masked_fill_def]
  note a1 = bc_map2_Inr_nth[OF m assms(2)]
  note i1 = bc_map2_index(1)[OF m assms(2)]
  note a2 = bc_map2_Inr_nth[OF a1 assms(3)]
  note i2 = bc_map2_index(1)[OF a1 assms(3)]
  note a3 = bc_map2_Inr_nth[OF a2 assms(4)]
  note i3 = bc_map2_index(1)[OF a2 assms(4)]
  note i4 = bc_map2_index(1)[OF a3 assms(5)]
  show ?thesis
    using i1 i2 i3 i4 unfolding bget4_def Let_def by blast
qed

lemma attention_inactive:
  assumes "inactive dropout"
  shows "attention query key val msk dropout h = Inr ((out, p), h') \<longleftrightarrow>
     attention_weights query key msk = Inr p \<and> matmul4 p val = Inr out \<and> h' = h"
proof (cases dropout)
  case None
  then show ?thesis
    by (auto simp: attention_def monad_simps liftE_def split: sum.splits)
next
  case (Some d)
  with assms have "\<And>w h. d w h = Inr (w, h)"
    by (simp add: inactive_def)
  with Some show ?thesis
    by (auto simp: attention_def monad_simps liftE_def split: sum.splits)
qed

text \<open>
  C3 (amended). For operands of bounded magnitude (every query and key entry at most 100
  in absolute value, query rows of at most 10000 features) and no active dropout on the
  weights: every non-empty row of the returned weights sums to 1; the row is the softmax
  of the scores of that row, in which each score that the mask forbids has been
  overwritten by the finite sentinel -1e9; and in a row that keeps at least one allowed
  key, every forbidden key has a weight below 1e-6.
\<close>

theorem attention_softmax_rows:
  assumes "inactive dropout"
    and "attention query key val msk dropout h = Inr ((out, p), h')"
    and "entries_le 100 query" "rows_le 10000 query" "entries_le 100 key"
    and "b < length p" "k < length (p ! b)" "i < length (p ! b ! k)"
  shows "(p ! b ! k ! i \<noteq> [] \<longrightarrow> sum_list (p ! b ! k ! i) = 1)
    \<and> (\<exists>sc sc'. attention_scores query key = Inr sc
          \<and> (case msk of None \<Rightarrow> sc' = sc | Some m \<Rightarrow> masked_fill sc m = Inr sc')
          \<and> p ! b ! k ! i = softmax (sc' ! b ! k ! i)
          \<and> (\<forall>m j. msk = Some m \<longrightarrow> j < length (p ! b ! k ! i) \<longrightarrow>
                sc' ! b ! k ! i ! j = (if bget4 m b k i j then bget4 sc b k i j else - 1000000000)))
    \<and> (\<forall>m j j'. msk = Some m \<longrightarrow> j < length (p ! b ! k ! i) \<longrightarrow> j' < length (p ! b ! k ! i)
          \<longrightarrow> \<not> bget4 m b k i j \<longrightarrow> bget4 m b k i j'
          \<longrightarrow> p ! b ! k ! i ! j < 1 / 1000000)"
proof -
  from assms(2) have w: "attention_weights query key msk = Inr p"
    by (simp add: attention_inactive[OF assms(1)])
  then obtain sc sc' where sc: "attention_scores query key = Inr sc"
    and sc': "(case msk of None \<Rightarrow> Inr sc | Some m \<Rightarrow> masked_fill sc m) = Inr sc'"
    and p: "p = map (map (map softmax)) sc'"
    by (auto simp: attention_weights_def bindE_Inr_iff)
  have row: "p ! b ! k ! i = softmax (sc' ! b ! k ! i)"
    and len: "length (p ! b ! k ! i) = length (sc' ! b ! k ! i)"
    and bs: "b < length sc'" "k < length (sc' ! b)" "i < length (sc' ! b ! k)"
    using assms(6-8) by (simp_all add: p softmax_def)
  have sum: "p ! b ! k ! i \<noteq> [] \<longrightarrow> sum_list (p ! b ! k ! i) = 1"
    using softmax_sum[of "sc' ! b ! k ! i"] row by (auto simp: softmax_def)
  have fill: "sc' ! b ! k ! i ! j = (if bget4 m b k i j then bget4 sc b k i j else - 1000000000)"
    if "msk = Some m" "j < length (p ! b ! k ! i)" for m j
    using that sc' masked_fill_nth[OF _ bs, of sc m j] by (simp add: len)
  have small: "p ! b ! k ! i ! j < 1 / 1000000"
    if "msk = Some m" "j < length (p ! b ! k ! i)" "j' < length (p ! b ! k ! i)"
      "\<not> bget4 m b k i j" "bget4 m b k i j'"
    for m j j'
  proof -
    have mf: "masked_fill sc m = Inr sc'"
      using sc' that(1) by simp
    have j': "j' < length (sc' ! b ! k ! i)" and j: "j < length (sc' ! b ! k ! i)"
      using that(2,3) len by simp_all
    from masked_fill_index[OF mf bs j'] obtain b1 k1 i1 j1
      where "b1 < length sc" "k1 < length (sc ! b1)" "i1 < length (sc ! b1 ! k1)"
        "j1 < length (sc ! b1 ! k1 ! i1)" and g: "bget4 sc b k i j' = sc ! b1 ! k1 ! i1 ! j1"
      by blast
    from attention_scores_bound[OF sc assms(3,4,5) this(1-4)]
    have "\<bar>bget4 sc b k i j'\<bar> \<le> 100000000"
      by (simp only: g)
    then have lo: "- 1000000000 + 14 \<le> bget4 sc b k i j'"
      by linarith
    have "sc' ! b ! k ! i ! j = - 1000000000"
      using fill[OF that(1,2)] that(4) by simp
    moreover have "- 1000000000 + 14 \<le> sc' ! b ! k ! i ! j'"
      using fill[OF that(1,3)] that(5) lo by simp
    ultimately have "softmax (sc' ! b ! k ! i) ! j < 1 / 1000000"
      using softmax_masked_small j j' by blast
    then show ?thesis
      by (simp only: row)
  qed
  have c: "(case msk of None \<Rightarrow> sc' = sc | Some m \<Rightarrow> masked_fill sc m = Inr sc')"
    using sc' by (auto split: option.splits)
  show ?thesis
    using sum sc c row fill small by blast
qed

lemmas eval_simps = bindE_simps monad_simps bc_map2_def matmul_def matmul4_def dot_def
  matmul_nt_def matmul4_nt_def
  attention_def attention_weights_def attention_scores_def masked_fill_def fill0_def
  softmax_def divide_chk_def size_last_def

text \<open>
  C3 as stated fails on a row whose only key is forbidden: the sentinel is finite, so the
  softmax gives that key the weight 1.
\<close>

theorem attention_masked_counterexample:
  "attention [[[[1]]]] [[[[1]]]] [[[[1]]]] (Some [[[[False]]]]) None empty_heap
     = Inr (([[[[1]]]], [[[[1]]]]), empty_heap)
   \<and> \<not> ([[[[1 :: real]]]] ! 0 ! 0 ! 0 ! 0 < 1 / 1000000)"
  by (simp add: eval_simps)

lemma inactive_ex: "inactive (Some (Dropout_forward4 example_dropout))"
  by (simp add: inactive_def Dropout_forward4_def F_dropout_def example_dropout_def)

lemma att_ex: "attention [[[[0]]]] [[[[0],[0]]]] [[[[1],[2]]]] (Some [[[[True, False]]]])
    (Some (Dropout_forward4 example_dropout)) empty_heap
  = Inr (([[[[(1 + 2 * exp (- 1000000000)) / (1 + exp (- 1000000000))]]]],
          [[[[1 / (1 + exp (- 1000000000)), exp (- 1000000000) / (1 + exp (- 1000000000))]]]]), empty_heap)"
  by (simp add: eval_simps add_divide_distrib Dropout_forward4_def F_dropout_def
      example_dropout_def)

lemma bounded_ex:
  "entries_le 100 [[[[0]]]]" "rows_le 10000 [[[[0]]]]" "entries_le 100 [[[[0],[0]]]]"
  by (simp_all add: entries_le_def rows_le_def)

theorem attention_softmax_rows_witness:
  "inactive (Some (Dropout_forward4 example_dropout))
   \<and> attention [[[[0]]]] [[[[0],[0]]]] [[[[1],[2]]]] (Some [[[[True, False]]]])
       (Some (Dropout_forward4 example_dropout)) empty_heap
     = Inr (([[[[(1 + 2 * exp (- 1000000000)) / (1 + exp (- 1000000000))]]]],
             [[[[1 / (1 + exp (- 1000000000)),
                 exp (- 1000000000) / (1 + exp (- 1000000000))]]]]), empty_heap)
   \<and> entries_le 100 [[[[0]]]] \<and> rows_le 10000 [[[[0]]]] \<and> entries_le 100 [[[[0],[0]]]]
   \<and> \<not> bget4 [[[[True, False]]]] 0 0 0 1 \<and> bget4 [[[[True, False]]]] 0 0 0 0
   \<and> sum_list [1 / (1 + exp (- 1000000000)), exp (- 1000000000) / (1 + exp (- 1000000000))]
       = (1 :: real)
   \<and> exp (- 1000000000) / (1 + exp (- 1000000000)) < (1 / 1000000 :: real)"
proof -
  let ?p = "[[[[1 / (1 + exp (- 1000000000)),
                exp (- 1000000000) / (1 + exp (- 1000000000 :: real))]]]]"
  let ?m = "[[[[True, False]]]]"
  have g: "\<not> bget4 ?m 0 0 0 1" "bget4 ?m 0 0 0 0"
    by (simp_all add: bget4_def bidx_def)
  note t = attention_softmax_rows [OF inactive_ex att_ex bounded_ex, of 0 0 0, simplified]
  have sum: "sum_list (?p ! 0 ! 0 ! 0) = 1"
    using t[THEN conjunct1] by simp
  have "?p ! 0 ! 0 ! 0 ! 1 < 1 / 1000000"
    using t[THEN conjunct2, THEN conjunct2, rule_format, of 1 0] g by simp
  then show ?thesis
    using inactive_ex att_ex g sum bounded_ex by simp
qed

section \<open>Embeddings\<close>

lemma read_simps:
  "params h a = Some (T1 v) \<Longrightarrow> read1 a h = Inr (v, h)"
  "params h a = Some (T2 m) \<Longrightarrow> read2 a h = Inr (m, h)"
  "params h a = Some (T3 t) \<Longrightarrow> read3 a h = Inr (t, h)"
  by (simp_all add: read1_def read2_def read3_def)

text \<open>
  C8. For every batch of token-id sequences whose ids are rows of the lookup table, the
  output at each position is the row of that token multiplied by sqrt d_model.
\<close>

theorem Embeddings_forward_scaled:
  assumes "params h (lut e) = Some (T2 W)"
    and "0 \<le> emb_d_model e"
    and "\<forall>row \<in> set x. \<forall>i \<in> set row. 0 \<le> i \<and> i < int (length W)"
  shows "Embeddings_forward e x h
    = Inr (map (map (\<lambda>i. map (\<lambda>v. v * sqrt (real_of_int (emb_d_model e))) (W ! nat i))) x, h)"
proof -
  have "mapE (mapE (embedding_lookup W)) x = Inr (map (map (\<lambda>i. W ! nat i)) x)"
    using assms(3) by (simp add: mapE_Inr_iff embedding_lookup_def all_set_conv_all_nth)
  then show ?thesis
    using assms(1,2)
    by (simp add: Embeddings_forward_def monad_simps read_simps bindE_simps math_sqrt_def o_def)
qed

theorem Embeddings_forward_scaled_witness:
  "params (empty_heap\<lparr>params := (\<lambda>_. Some (T2 [[1, 2, 3, 4], [5, 6, 7, 8]]))\<rparr>)
      (lut \<lparr>lut = 0, emb_d_model = 4\<rparr>) = Some (T2 [[1, 2, 3, 4], [5, 6, 7, 8]])
   \<and> 0 \<le> emb_d_model \<lparr>lut = 0, emb_d_model = 4\<rparr>
   \<and> (0 :: int) \<le> 1 \<and> (1 :: int) < int (length [[1, 2, 3, 4], [5, 6, 7, 8 :: real]])
   \<and> (0 :: int) \<le> 0 \<and> (0 :: int) < int (length [[1, 2, 3, 4], [5, 6, 7, 8 :: real]])
   \<and> Embeddings_forward \<lparr>lut = 0, emb_d_model = 4\<rparr> [[1, 0]]
        (empty_heap\<lparr>params := (\<lambda>_. Some (T2 [[1, 2, 3, 4], [5, 6, 7, 8]]))\<rparr>)
      = Inr ([[[10, 12, 14, 16], [2, 4, 6, 8]]],
             empty_heap\<lparr>params := (\<lambda>_. Some (T2 [[1, 2, 3, 4], [5, 6, 7, 8]]))\<rparr>)"
proof -
  have "sqrt 4 = 2"
    using real_sqrt_abs[of 2] by simp
  then show ?thesis
    using Embeddings_forward_scaled [of "empty_heap\<lparr>params := (\<lambda>_. Some (T2 [[1, 2, 3, 4], [5, 6, 7, 8]]))\<rparr>"
      "\<lparr>lut = 0, emb_d_model = 4\<rparr>" "[[1, 2, 3, 4], [5, 6, 7, 8]]" "[[1, 0]]"]
    by simp
qed

section \<open>The sublayer connection\<close>

lemma map_accum_length: "map_accum f xs s = (ys, s') \<Longrightarrow> length ys = length xs"
  by (induction xs arbitrary: s ys) (auto split: prod.splits)

lemma map_accum_nth:
  "map_accum f xs s = (ys, s') \<Longrightarrow> i < length xs \<Longrightarrow> \<exists>s1 s2. f (xs ! i) s1 = (ys ! i, s2)"
proof (induction xs arbitrary: s ys i)
  case Nil
  then show ?case by simp
next
  case (Cons x xs)
  show ?case
  proof (cases i)
    case 0
    from Cons.prems obtain x1 x2 x1a where "f x s = (x1, x2)" "ys = x1 # x1a"
      by (auto split: prod.splits)
    then show ?thesis
      using 0 by (intro exI[of _ s] exI[of _ x2]) simp
  next
    case (Suc n)
    with Cons.prems Cons.IH[of _ _ n] show ?thesis
      by (auto split: prod.splits)
  qed
qed

lemma dropout_vec_length: "length (fst (dropout_vec p v g)) = length v"
  by (simp add: dropout_vec_def)

lemma has_shape3_nth:
  "has_shape3 B T F x \<longleftrightarrow>
     length x = B \<and> (\<forall>i<B. length (x ! i) = T \<and> (\<forall>t<T. length (x ! i ! t) = F))"
  by (auto simp: has_shape3_def all_set_conv_all_nth)

lemma dropout_over3_shape:
  assumes "map_accum (map_accum (dropout_vec p)) x g = (y, g')" "has_shape3 B T F x"
  shows "has_shape3 B T F y"
proof -
  have l: "length y = length x"
    using assms(1) by (rule map_accum_length)
  have "length (y ! i) = T \<and> (\<forall>t<T. length (y ! i ! t) = F)" if "i < B" for i
  proof -
    from that assms(2) have i: "i < length x" and xi: "length (x ! i) = T"
      and xit: "\<forall>t<T. length (x ! i ! t) = F"
      by (simp_all add: has_shape3_nth)
    from map_accum_nth[OF assms(1) i] obtain s1 s2
      where r: "map_accum (dropout_vec p) (x ! i) s1 = (y ! i, s2)" by blast
    have "length (y ! i ! t) = F" if "t < T" for t
    proof -
      from map_accum_nth[OF r, of t] that xi obtain u1 u2
        where "dropout_vec p (x ! i ! t) u1 = (y ! i ! t, u2)" by auto
      then have "length (y ! i ! t) = length (x ! i ! t)"
        using dropout_vec_length[of p "x ! i ! t" u1] by simp
      then show ?thesis using xit that by simp
    qed
    then show ?thesis using map_accum_length[OF r] xi by simp
  qed
  then show ?thesis using l assms(2) by (simp add: has_shape3_nth)
qed

lemma Dropout_forward3_shape:
  assumes "Dropout_forward3 d x h = Inr (y, h')" "has_shape3 B T F x"
  shows "has_shape3 B T F y"
  using assms dropout_over3_shape
  by (auto simp: Dropout_forward3_def F_dropout_def split: if_splits prod.splits)

lemma layer_norm_same:
  assumes "length a = length v" "length b = length v" "length v \<noteq> 1" "std v + e \<noteq> 0"
  shows "layer_norm a b e v
    = Inr (map (\<lambda>k. a ! k * (v ! k - mean v) / (std v + e) + b ! k) [0..<length v])"
proof -
  let ?num = "map (\<lambda>k. a ! k * (v ! k - mean v)) [0..<length v]"
  let ?q = "map (\<lambda>k. a ! k * (v ! k - mean v) / (std v + e)) [0..<length v]"
  have 1: "bc_map2 mul0 a (map (\<lambda>x. x - mean v) v) = Inr ?num"
    using assms(1) by (simp add: bc_map2_same mul0_def)
  have 2: "mapE (\<lambda>x. divide_chk x (std v + e)) ?num = Inr ?q"
    using assms(4) by (simp add: mapE_Inr_iff divide_chk_def)
  have 3: "add1 ?q b = Inr (map (\<lambda>k. a ! k * (v ! k - mean v) / (std v + e) + b ! k) [0..<length v])"
    using assms(2) by (simp add: add1_def bc_map2_same add0_def)
  show ?thesis
    using assms(3) by (simp add: layer_norm_def 1 2 3 bindE_simps)
qed

lemma add3_same:
  assumes "has_shape3 B T F x" "has_shape3 B T F y"
  shows "add3 x y
    = Inr (map (\<lambda>i. map (\<lambda>t. map (\<lambda>k. x ! i ! t ! k + y ! i ! t ! k) [0..<F]) [0..<T]) [0..<B])"
  using assms
  by (simp add: add3_def bc_map2_same has_shape3_nth add0_def)

lemma LayerNorm_forward_shaped:
  assumes "has_shape3 B T F d"
    and "params h (a_2 n) = Some (T1 a)" "length a = F"
    and "params h (b_2 n) = Some (T1 b)" "length b = F"
    and "F \<noteq> 1" "\<forall>r \<in> set d. \<forall>v \<in> set r. std v + eps n \<noteq> 0"
  shows "LayerNorm_forward n d h
    = Inr (map (map (\<lambda>v. map (\<lambda>k. a ! k * (v ! k - mean v) / (std v + eps n) + b ! k) [0..<F])) d, h)"
proof -
  have "mapE (mapE (layer_norm a b (eps n))) d
    = Inr (map (map (\<lambda>v. map (\<lambda>k. a ! k * (v ! k - mean v) / (std v + eps n) + b ! k) [0..<F])) d)"
    using assms(1,3,5,6,7)
    by (simp add: mapE_Inr_iff has_shape3_nth layer_norm_same all_set_conv_all_nth)
  then show ?thesis
    using assms(2,4) by (simp add: LayerNorm_forward_def monad_simps read_simps)
qed

text \<open>
  C2. For an input of shape (B, T, F) and a sublayer that preserves this shape, the
  sublayer connection returns input + LayerNorm (dropout (sublayer input)): with d the
  dropped-out sublayer result, every output entry is the input entry itself plus the
  normalized, scaled and shifted entry of d.
\<close>

theorem SublayerConnection_forward_residual:
  assumes "has_shape3 B T F x"
    and "sublayer x h = Inr (y, h1)" and "has_shape3 B T F y"
    and "Dropout_forward3 (sc_dropout s) y h1 = Inr (d, h2)"
    and "params h2 (a_2 (sc_norm s)) = Some (T1 a)" "length a = F"
    and "params h2 (b_2 (sc_norm s)) = Some (T1 b)" "length b = F"
    and "F \<noteq> 1" "\<forall>r \<in> set d. \<forall>v \<in> set r. std v + eps (sc_norm s) \<noteq> 0"
  shows "\<exists>out. SublayerConnection_forward s x sublayer h = Inr (out, h2)
          \<and> has_shape3 B T F out
          \<and> (\<forall>i<B. \<forall>t<T. \<forall>k<F.
                out ! i ! t ! k
                  = x ! i ! t ! k
                    + (a ! k * (d ! i ! t ! k - mean (d ! i ! t))
                         / (std (d ! i ! t) + eps (sc_norm s)) + b ! k))"
proof -
  let ?e = "eps (sc_norm s)"
  let ?n = "map (map (\<lambda>v. map (\<lambda>k. a ! k * (v ! k - mean v) / (std v + ?e) + b ! k) [0..<F])) d"
  let ?out = "map (\<lambda>i. map (\<lambda>t. map (\<lambda>k. x ! i ! t ! k + ?n ! i ! t ! k) [0..<F]) [0..<T]) [0..<B]"
  have sd: "has_shape3 B T F d"
    using assms(4,3) by (rule Dropout_forward3_shape)
  have n: "LayerNorm_forward (sc_norm s) d h2 = Inr (?n, h2)"
    using sd assms(5-10) by (rule LayerNorm_forward_shaped)
  have sn: "has_shape3 B T F ?n"
    using sd by (simp add: has_shape3_nth)
  have "add3 x ?n = Inr ?out"
    using assms(1) sn by (rule add3_same)
  then have run: "SublayerConnection_forward s x sublayer h = Inr (?out, h2)"
    using assms(2,4) n by (simp add: SublayerConnection_forward_def monad_simps)
  have so: "has_shape3 B T F ?out"
    by (simp add: has_shape3_nth)
  have "?out ! i ! t ! k
      = x ! i ! t ! k + (a ! k * (d ! i ! t ! k - mean (d ! i ! t)) / (std (d ! i ! t) + ?e) + b ! k)"
    if "i < B" "t < T" "k < F" for i t k
    using that sd by (simp add: has_shape3_nth)
  with run so show ?thesis
    by blast
qed

lemma std_1_3: "std [2, 6] = sqrt 8"
  by (simp add: std_def mean_def)

theorem SublayerConnection_forward_residual_witness:
  "has_shape3 1 1 2 [[[1, 3 :: real]]]
   \<and> (\<lambda>x :: t3. returnM (map (map (map (\<lambda>v. 2 * v))) x)) [[[1, 3]]] example_heap
       = Inr ([[[2, 6]]], example_heap)
   \<and> has_shape3 1 1 2 [[[2, 6 :: real]]]
   \<and> Dropout_forward3 (sc_dropout (example_sublayer 0)) [[[2, 6]]] example_heap
       = Inr ([[[2, 6]]], example_heap)
   \<and> params example_heap (a_2 (sc_norm (example_sublayer 0))) = Some (T1 [1, 1])
   \<and> params example_heap (b_2 (sc_norm (example_sublayer 0))) = Some (T1 [0, 0])
   \<and> std [2, 6] + eps (sc_norm (example_sublayer 0)) \<noteq> 0
   \<and> (\<exists>out. SublayerConnection_forward (example_sublayer 0) [[[1, 3]]]
                (\<lambda>x :: t3. returnM (map (map (map (\<lambda>v. 2 * v))) x)) example_heap
              = Inr (out, example_heap)
          \<and> out ! 0 ! 0 ! 0 = 1 + (1 * (2 - 4) / (sqrt 8 + 1 / 1000000) + 0)
          \<and> out ! 0 ! 0 ! 1 = 3 + (1 * (6 - 4) / (sqrt 8 + 1 / 1000000) + 0))"
proof -
  have 1: "has_shape3 1 1 2 [[[1, 3 :: real]]]" "has_shape3 1 1 2 [[[2, 6 :: real]]]"
    by (simp_all add: has_shape3_def)
  have 2: "(\<lambda>x :: t3. returnM (map (map (map (\<lambda>v. 2 * v))) x)) [[[1, 3]]] example_heap
       = Inr ([[[2, 6]]], example_heap)"
    by (simp add: monad_simps)
  have 3: "Dropout_forward3 (sc_dropout (example_sublayer 0)) [[[2, 6]]] example_heap
       = Inr ([[[2, 6]]], example_heap)"
    by (simp add: Dropout_forward3_def F_dropout_def example_sublayer_def example_dropout_def)
  have 4: "params example_heap (a_2 (sc_norm (example_sublayer 0))) = Some (T1 [1, 1])"
    "params example_heap (b_2 (sc_norm (example_sublayer 0))) = Some (T1 [0, 0])"
    by (simp_all add: example_sublayer_def example_norm_def example_heap_def)
  have "0 \<le> sqrt (8 :: real)" by simp
  then have "sqrt 8 + 1 / 1000000 \<noteq> (0 :: real)" by linarith
  then have 5: "\<forall>r \<in> set [[[2, 6 :: real]]]. \<forall>v \<in> set r. std v + eps (sc_norm (example_sublayer 0)) \<noteq> 0"
    by (simp add: std_1_3 example_sublayer_def example_norm_def)
  have m: "mean [2, 6] = 4" by (simp add: mean_def)
  from SublayerConnection_forward_residual
    [where sublayer = "\<lambda>x :: t3. returnM (map (map (map (\<lambda>v. 2 * v))) x)"
       and x = "[[[1, 3]]]" and a = "[1, 1]" and b = "[0, 0]", OF 1(1) 2 1(2) 3 4(1) _ 4(2) _ _ 5]
  obtain out where o: "SublayerConnection_forward (example_sublayer 0) [[[1, 3]]]
                (\<lambda>x :: t3. returnM (map (map (map (\<lambda>v. 2 * v))) x)) example_heap
              = Inr (out, example_heap)"
    and e: "\<forall>i<1. \<forall>t<1. \<forall>k<2. out ! i ! t ! k
       = [[[1, 3]]] ! i ! t ! k + ([1, 1] ! k * ([[[2, 6]]] ! i ! t ! k - mean ([[[2, 6]]] ! i ! t))
             / (std ([[[2, 6]]] ! i ! t) + eps (sc_norm (example_sublayer 0))) + [0, 0] ! k)"
    by auto
  from e have "out ! 0 ! 0 ! 0 = 1 + (1 * (2 - 4) / (sqrt 8 + 1 / 1000000) + 0)"
    "out ! 0 ! 0 ! 1 = 3 + (1 * (6 - 4) / (sqrt 8 + 1 / 1000000) + 0)"
    by (simp_all add: m std_1_3 example_sublayer_def example_norm_def)
  moreover have "std [2, 6] + eps (sc_norm (example_sublayer 0)) \<noteq> 0"
    using 5 by simp
  ultimately show ?thesis
    using o 1 2 3 4 by blast
qed

section \<open>Forward computations never read the attn attributes\<close>

lemma same_params_refl: "same_params h h"
  by (simp add: same_params_def)

lemma attn_blind_returnM: "attn_blind (returnM x)"
  by (simp add: attn_blind_def returnM_def)

lemma attn_blind_liftE: "attn_blind (liftE r)"
  by (cases r) (simp_all add: attn_blind_def liftE_def)

lemma attn_blindD_Inl:
  assumes "attn_blind m" "same_params h1 h2" "m h1 = Inl e"
  shows "m h2 = Inl e"
proof -
  from assms(1,2) have "case m h1 of Inl e \<Rightarrow> m h2 = Inl e
     | Inr (x, h1') \<Rightarrow> params h1' = params h1 \<and> nxt h1' = nxt h1 \<and>
         (\<exists>h2'. m h2 = Inr (x, h2') \<and> same_params h1' h2')"
    unfolding attn_blind_def by blast
  with assms(3) show ?thesis by simp
qed

lemma attn_blindD_Inr:
  assumes "attn_blind m" "same_params h1 h2" "m h1 = Inr (x, h1')"
  shows "params h1' = params h1 \<and> nxt h1' = nxt h1 \<and>
         (\<exists>h2'. m h2 = Inr (x, h2') \<and> same_params h1' h2')"
proof -
  from assms(1,2) have "case m h1 of Inl e \<Rightarrow> m h2 = Inl e
     | Inr (x, h1') \<Rightarrow> params h1' = params h1 \<and> nxt h1' = nxt h1 \<and>
         (\<exists>h2'. m h2 = Inr (x, h2') \<and> same_params h1' h2')"
    unfolding attn_blind_def by blast
  with assms(3) show ?thesis by simp
qed

lemma attn_blind_bindM:
  assumes "attn_blind m" "\<And>x. attn_blind (f x)"
  shows "attn_blind (bindM m f)"
  unfolding attn_blind_def
proof (intro allI impI)
  fix h1 h2 assume s: "same_params h1 h2"
  show "case bindM m f h1 of
          Inl e \<Rightarrow> bindM m f h2 = Inl e
        | Inr (x, h1') \<Rightarrow> params h1' = params h1 \<and> nxt h1' = nxt h1 \<and>
            (\<exists>h2'. bindM m f h2 = Inr (x, h2') \<and> same_params h1' h2')"
  proof (cases "m h1")
    case (Inl e)
    with attn_blindD_Inl[OF assms(1) s] show ?thesis
      by (simp add: bindM_def)
  next
    case (Inr r)
    obtain x k1 where r: "r = (x, k1)" by (cases r)
    from attn_blindD_Inr[OF assms(1) s Inr[unfolded r]]
    obtain k2 where k: "params k1 = params h1" "nxt k1 = nxt h1"
      "m h2 = Inr (x, k2)" "same_params k1 k2"
      by blast
    show ?thesis
    proof (cases "f x k1")
      case (Inl e)
      with attn_blindD_Inl[OF assms(2) k(4)] Inr r k show ?thesis
        by (simp add: bindM_def)
    next
      case fr: (Inr q)
      obtain y j1 where q: "q = (y, j1)" by (cases q)
      from attn_blindD_Inr[OF assms(2) k(4) fr[unfolded q]] Inr r k fr q show ?thesis
        by (auto simp: bindM_def)
    qed
  qed
qed

lemma attn_blind_read:
  "attn_blind (read1 a)" "attn_blind (read2 a)" "attn_blind (read3 a)"
  by (auto simp: attn_blind_def read1_def read2_def read3_def same_params_def
      split: option.splits tensor.splits)

lemma attn_blind_getitem: "attn_blind (getitem xs i)"
  by (simp add: getitem_def attn_blind_returnM attn_blind_liftE)

lemma attn_blind_set_attn: "attn_blind (set_attn a w)"
  by (simp add: attn_blind_def set_attn_def same_params_def)

lemma attn_blind_F_dropout: "attn_blind (F_dropout over d x)"
  by (auto simp: attn_blind_def F_dropout_def same_params_def split: prod.splits)

lemma attn_blind_foldM:
  assumes "\<And>x l. attn_blind (f x l)"
  shows "attn_blind (foldM f x ls)"
  by (induction ls arbitrary: x) (simp_all add: attn_blind_returnM attn_blind_bindM assms)

lemma attn_blind_case_prod:
  assumes "\<And>a b. attn_blind (f a b)"
  shows "attn_blind (case z of (a, b) \<Rightarrow> f a b)"
  by (cases z) (simp add: assms)

lemmas attn_blind_intros = attn_blind_returnM attn_blind_liftE attn_blind_bindM attn_blind_read
  attn_blind_getitem attn_blind_set_attn attn_blind_foldM attn_blind_case_prod

lemma attn_blind_Dropout_forward:
  "attn_blind (Dropout_forward3 d x)" "attn_blind (Dropout_forward4 d y)"
  by (simp_all add: Dropout_forward3_def Dropout_forward4_def attn_blind_F_dropout)

lemma attn_blind_Linear_forward: "attn_blind (Linear_forward l x)"
  unfolding Linear_forward_def by (intro attn_blind_intros)

lemma attn_blind_attention:
  assumes "\<And>d p. dropout = Some d \<Longrightarrow> attn_blind (d p)"
  shows "attn_blind (attention query key val msk dropout)"
  unfolding attention_def
  by (intro attn_blind_intros) (auto split: option.splits intro: attn_blind_intros assms)

lemma attn_blind_project_heads: "attn_blind (project_heads m n l x)"
  unfolding project_heads_def by (intro attn_blind_intros attn_blind_Linear_forward)

lemma attn_blind_mapM:
  assumes "\<And>x. attn_blind (f x)"
  shows "attn_blind (mapM f xs)"
  by (induction xs) (simp_all add: attn_blind_returnM attn_blind_bindM assms)

lemma attn_blind_MultiHeadedAttention_forward:
  "attn_blind (MultiHeadedAttention_forward m query key val msk)"
  unfolding MultiHeadedAttention_forward_def Let_def
  by (auto split: list.splits
      intro!: attn_blind_intros attn_blind_mapM attn_blind_project_heads attn_blind_attention
        attn_blind_Dropout_forward attn_blind_Linear_forward)

lemma attn_blind_PositionwiseFeedForward_forward:
  "attn_blind (PositionwiseFeedForward_forward f x)"
  unfolding PositionwiseFeedForward_forward_def
  by (intro attn_blind_intros attn_blind_Linear_forward attn_blind_Dropout_forward)

lemma attn_blind_LayerNorm_forward: "attn_blind (LayerNorm_forward n x)"
  unfolding LayerNorm_forward_def by (intro attn_blind_intros)

lemma attn_blind_SublayerConnection_forward:
  assumes "\<And>y. attn_blind (sublayer y)"
  shows "attn_blind (SublayerConnection_forward s x sublayer)"
  unfolding SublayerConnection_forward_def
  by (intro attn_blind_intros attn_blind_Dropout_forward attn_blind_LayerNorm_forward assms)

lemma attn_blind_EncoderLayer_forward: "attn_blind (EncoderLayer_forward l x msk)"
  unfolding EncoderLayer_forward_def
  by (intro attn_blind_intros attn_blind_SublayerConnection_forward
      attn_blind_MultiHeadedAttention_forward attn_blind_PositionwiseFeedForward_forward)

lemma attn_blind_DecoderLayer_forward:
  "attn_blind (DecoderLayer_forward l x memory src_mask tgt_mask)"
  unfolding DecoderLayer_forward_def Let_def
  by (intro attn_blind_intros attn_blind_SublayerConnection_forward
      attn_blind_MultiHeadedAttention_forward attn_blind_PositionwiseFeedForward_forward)

lemma attn_blind_Encoder_forward: "attn_blind (Encoder_forward e x msk)"
  unfolding Encoder_forward_def
  by (intro attn_blind_intros attn_blind_EncoderLayer_forward attn_blind_LayerNorm_forward)

lemma attn_blind_Decoder_forward: "attn_blind (Decoder_forward d x memory src_mask tgt_mask)"
  unfolding Decoder_forward_def
  by (intro attn_blind_intros attn_blind_DecoderLayer_forward attn_blind_LayerNorm_forward)

lemma attn_blind_Sequential_forward: "attn_blind (Sequential_forward s x)"
  unfolding Sequential_forward_def Embeddings_forward_def PositionalEncoding_forward_def
  by (intro attn_blind_intros attn_blind_Dropout_forward)

lemma attn_blind_EncoderDecoder_forward:
  "attn_blind (EncoderDecoder_forward m src tgt src_mask tgt_mask)"
  unfolding EncoderDecoder_forward_def encode_def decode_def
  by (intro attn_blind_intros attn_blind_Sequential_forward attn_blind_Encoder_forward
      attn_blind_Decoder_forward)

lemma attn_blind_Generator_forward: "attn_blind (Generator_forward g x)"
  unfolding Generator_forward_def
  by (intro attn_blind_intros attn_blind_Linear_forward)

section \<open>Running the small model\<close>

lemmas ex_defs = example_heap_def example_linear_def example_dropout_def example_sublayer_def
  example_norm_def example_attention_def example_decoder_layer_def example_encoder_layer_def
  example_model_def

lemma upt2: "[0..<2] = [0, Suc 0]" "[0..<Suc 0] = [0]" "[0..<1] = [0]"
  by (simp_all add: upt_conv_Cons)

lemmas fwd_defs = Linear_forward_def read1_def read2_def read3_def F_linear_def add1_def add3_def
     add0_def mul0_def view4_def view3_def chunks_def Let_def upt2
     transpose12_def project_heads_def MultiHeadedAttention_forward_def eval_simps
     Dropout_forward4_def Dropout_forward3_def F_dropout_def set_attn_def
     SublayerConnection_forward_def LayerNorm_forward_def layer_norm_def
     PositionwiseFeedForward_forward_def relu_def getitem_def

lemma mean_std_zero: "mean [0, 0] = 0" "std [0, 0] = 0"
  by (simp_all add: mean_def std_def)

lemma mean_std_01: "mean [0, 1] = 1 / 2" "std [0, 1] + 1 / 1000000 \<noteq> 0"
proof -
  have "0 \<le> std [0, 1]" by (simp add: std_def)
  then show "std [0, 1] + 1 / 1000000 \<noteq> 0" by linarith
qed (simp add: mean_def)

lemma ed_ex:
  "EncoderDecoder_forward example_model [[0]] [[0]] (Some [[[True]]]) (Some [[[True]]]) example_heap
   = Inr ([[[(0 - 1 / 2) / (std [0, 1] + 1 / 1000000), (1 - 1 / 2) / (std [0, 1] + 1 / 1000000)]]],
          example_heap\<lparr>attns := (attns example_heap)
             (54 := Some (Some [[[[1]]]]), 52 := Some (Some [[[[1]]]]), 53 := Some (Some [[[[1]]]]))\<rparr>)"
  by (simp add: EncoderDecoder_forward_def encode_def decode_def Sequential_forward_def
      Embeddings_forward_def PositionalEncoding_forward_def Encoder_forward_def Decoder_forward_def
      EncoderLayer_forward_def DecoderLayer_forward_def embedding_lookup_def math_sqrt_def size1_def
      fwd_defs ex_defs mean_std_zero mean_std_01)

lemma mha_ex:
  "MultiHeadedAttention_forward (example_attention 0 52) [[[0, 0], [0, 0]]] [[[0, 0], [0, 0]]]
     [[[0, 0], [0, 0]]] (Some [[[True, True], [True, True]]]) example_heap
   = Inr ([[[0, 0], [0, 0]]],
          example_heap\<lparr>attns := (attns example_heap)(52 := Some (Some [[[[1/2, 1/2], [1/2, 1/2]]]]))\<rparr>)"
  by (simp add: fwd_defs ex_defs)

lemma dl_ex:
  "DecoderLayer_forward example_decoder_layer [[[0, 0], [0, 0]]] [[[0, 0], [0, 0]]]
     (Some [[[True, True]]]) (Some [[[True, True], [True, True]]]) example_heap
   = Inr ([[[0, 0], [0, 0]]],
          example_heap\<lparr>attns := (attns example_heap)
             (52 := Some (Some [[[[1/2, 1/2], [1/2, 1/2]]]]),
              53 := Some (Some [[[[1/2, 1/2], [1/2, 1/2]]]]))\<rparr>)"
  by (simp add: DecoderLayer_forward_def fwd_defs ex_defs mean_std_zero)

section \<open>The decoder layer\<close>

lemma bc_map2_length:
  assumes "bc_map2 g xs ys = Inr zs" "length ys \<noteq> 1"
  shows "length zs = length ys"
  using assms by (auto simp: bc_map2_def mapE_Inr_iff split: if_splits)

lemma mask_and_causal:
  assumes c: "subsequent_mask (int T) = Inr c" and m: "mask_and pad c = Inr tm"
    and r: "b < length tm" "i < j" "j < T"
  shows "length (tm ! b) = T \<and> length (tm ! b ! i) = T \<and> \<not> tm ! b ! i ! j"
proof -
  let ?M = "map (\<lambda>i. map (\<lambda>j. j \<le> i) [0..<T]) [0..<T]"
  have c': "c = [?M]"
    using c by (simp add: subsequent_mask_rows)
  have T: "T \<noteq> 1" "i < T" using r by auto
  note m' = m[unfolded mask_and_def c']
  from bc_map2_Inr_nth[OF m' r(1)]
  have a1: "bc_map2 (bc_map2 (\<lambda>a b. Inr (a \<and> b))) (pad ! bidx (length pad) b) ?M = Inr (tm ! b)"
    by (simp add: bidx_def)
  have l1: "length (tm ! b) = T"
    using bc_map2_length[OF a1] T by simp
  from bc_map2_Inr_nth[OF a1, of i] l1 T
  have a2: "bc_map2 (\<lambda>a b. Inr (a \<and> b))
      (pad ! bidx (length pad) b ! bidx (length (pad ! bidx (length pad) b)) i) (?M ! i)
        = Inr (tm ! b ! i)"
    by (simp add: bidx_def)
  have l2: "length (tm ! b ! i) = T"
    using bc_map2_length[OF a2] T by simp
  from bc_map2_Inr_nth[OF a2, of j] l2 r T
  have "\<not> tm ! b ! i ! j"
    by (auto simp: bidx_def)
  with l1 l2 show ?thesis by simp
qed

lemma read_Inr_iff:
  "read1 a h = Inr (v, h') \<longleftrightarrow> params h a = Some (T1 v) \<and> h' = h"
  "read2 a h = Inr (w, h') \<longleftrightarrow> params h a = Some (T2 w) \<and> h' = h"
  "read3 a h = Inr (t, h') \<longleftrightarrow> params h a = Some (T3 t) \<and> h' = h"
  by (auto simp: read1_def read2_def read3_def split: option.splits tensor.splits)

lemma Linear_forward_frame: "Linear_forward l x h = Inr (y, h') \<Longrightarrow> h' = h"
  by (auto simp: Linear_forward_def bindM_Inr_iff read_Inr_iff liftE_Inr_iff)

lemma project_heads_frame: "project_heads m n l x h = Inr (q, h') \<Longrightarrow> h' = h"
  by (auto simp: project_heads_def bindM_Inr_iff liftE_Inr_iff returnM_def
      dest: Linear_forward_frame)

lemma LayerNorm_forward_frame: "LayerNorm_forward n x h = Inr (y, h') \<Longrightarrow> h' = h"
  by (auto simp: LayerNorm_forward_def bindM_Inr_iff read_Inr_iff liftE_Inr_iff)

lemma F_dropout_attns: "F_dropout over d x h = Inr (y, h') \<Longrightarrow> attns h' = attns h"
  by (auto simp: F_dropout_def split: if_splits prod.splits)

lemma PositionwiseFeedForward_forward_attns:
  "PositionwiseFeedForward_forward f x h = Inr (y, h') \<Longrightarrow> attns h' = attns h"
  by (auto simp: PositionwiseFeedForward_forward_def bindM_Inr_iff Dropout_forward3_def
      dest!: Linear_forward_frame F_dropout_attns)

lemma SublayerConnection_forward_run:
  assumes "SublayerConnection_forward s x sub h = Inr (y, h')"
  shows "\<exists>y0 h0. sub x h = Inr (y0, h0) \<and> attns h' = attns h0"
  using assms
  by (auto simp: SublayerConnection_forward_def bindM_Inr_iff Dropout_forward3_def liftE_Inr_iff
      dest!: LayerNorm_forward_frame F_dropout_attns)

lemma mapM_length: "mapM f xs h = Inr (ys, h') \<Longrightarrow> length ys = length xs"
  by (induction xs arbitrary: ys h) (auto simp: bindM_Inr_iff returnM_def)

lemma attention_dropout_run:
  assumes "attention Q K V msk (Some (Dropout_forward4 d)) h = Inr ((x, p), g)"
  shows "\<exists>w. attention_weights Q K msk = Inr w \<and> Dropout_forward4 d w h = Inr (p, g)
           \<and> matmul4 p V = Inr x \<and> attns g = attns h"
  using assms
  by (auto simp: attention_def bindM_Inr_iff liftE_Inr_iff returnM_def Dropout_forward4_def
      dest: F_dropout_attns)

lemma MultiHeadedAttention_forward_run:
  assumes "MultiHeadedAttention_forward m query key val msk h = Inr (out, h')"
  shows "\<exists>Q K V x p g.
        project_heads m (length query) (linears m ! 0) query h = Inr (Q, h)
      \<and> project_heads m (length query) (linears m ! 1) key h = Inr (K, h)
      \<and> project_heads m (length query) (linears m ! 2) val h = Inr (V, h)
      \<and> attention Q K V (map_option (map (\<lambda>b. [b])) msk)
            (Some (Dropout_forward4 (mha_dropout m))) h = Inr ((x, p), g)
      \<and> attns h' = (attns h)(attn m := Some (Some p))"
proof -
  let ?f = "\<lambda>(l, x). project_heads m (length query) l x"
  from assms[unfolded MultiHeadedAttention_forward_def Let_def bindM_Inr_iff]
  obtain qkv h1 where 1: "mapM ?f (zip (linears m) [query, key, val]) h = Inr (qkv, h1)"
    and 2: "(case qkv of
           [q, k, v] \<Rightarrow>
             bindM (attention q k v (map_option (map (\<lambda>b. [b])) msk)
                      (Some (Dropout_forward4 (mha_dropout m)))) (\<lambda>(x, p_attn).
             bindM (set_attn (attn m) p_attn) (\<lambda>_.
             bindM (liftE (view3 (length query) (mha_h m * mha_d_k m) (transpose12 x))) (\<lambda>x'.
             bindM (getitem (linears m) (length (linears m) - 1)) (\<lambda>l.
             Linear_forward l x'))))
         | _ \<Rightarrow> liftE (Inl ValueError)) h1 = Inr (out, h')"
    by blast
  have "\<exists>q k v. qkv = [q, k, v]"
  proof (cases qkv)
    case Nil
    with 2 show ?thesis by (simp add: liftE_def)
  next
    case c1: (Cons q r1)
    show ?thesis
    proof (cases r1)
      case Nil
      with 2 c1 show ?thesis by (simp add: liftE_def)
    next
      case c2: (Cons k r2)
      show ?thesis
      proof (cases r2)
        case Nil
        with 2 c1 c2 show ?thesis by (simp add: liftE_def)
      next
        case c3: (Cons v r3)
        show ?thesis
        proof (cases r3)
          case Nil
          with c1 c2 c3 show ?thesis by simp
        next
          case (Cons a r4)
          with 2 c1 c2 c3 show ?thesis by (simp add: liftE_def)
        qed
      qed
    qed
  qed
  then obtain q k v where qkv: "qkv = [q, k, v]"
    by blast
  from mapM_length[OF 1] have "3 \<le> length (linears m)"
    by (simp add: qkv)
  then obtain l0 l1 l2 ls where ls: "linears m = l0 # l1 # l2 # ls"
    by (cases "linears m"; cases "tl (linears m)"; cases "tl (tl (linears m))") auto
  from 1 obtain ha hb where p: "project_heads m (length query) l0 query h = Inr (q, ha)"
    "project_heads m (length query) l1 key ha = Inr (k, hb)"
    "project_heads m (length query) l2 val hb = Inr (v, h1)"
    by (auto simp: ls qkv bindM_Inr_iff returnM_def)
  from project_heads_frame[OF p(1)] have ha: "ha = h" .
  from project_heads_frame[OF p(2)] have hb: "hb = h" by (simp add: ha)
  from project_heads_frame[OF p(3)] have h1: "h1 = h" by (simp add: hb)
  from 2 have "\<exists>x pa g. attention q k v (map_option (map (\<lambda>b. [b])) msk)
                      (Some (Dropout_forward4 (mha_dropout m))) h = Inr ((x, pa), g)
      \<and> h' = g\<lparr>attns := (attns g)(attn m := Some (Some pa))\<rparr>"
    by (auto simp: qkv h1 bindM_Inr_iff set_attn_def liftE_Inr_iff getitem_def returnM_def
        split: if_splits dest!: Linear_forward_frame)
  then obtain x pa g where a: "attention q k v (map_option (map (\<lambda>b. [b])) msk)
                      (Some (Dropout_forward4 (mha_dropout m))) h = Inr ((x, pa), g)"
    and h': "h' = g\<lparr>attns := (attns g)(attn m := Some (Some pa))\<rparr>"
    by blast
  from attention_dropout_run[OF a] have ag: "attns g = attns h" by blast
  have "attns h' = (attns h)(attn m := Some (Some pa))"
    by (simp add: h' ag)
  with p a show ?thesis
    by (auto simp: ls ha hb h1)
qed




section \<open>Purity of the forward computation\<close>

text \<open>
  C9 (amended). Started in two stores with the same parameters, buffers and generator
  state, which may differ in the attn attributes, the forward computation of the whole
  model and of a multi-head attention module raise the same error or return the same
  output, leave every parameter and buffer unchanged, and leave the generator in the
  same state.
\<close>

theorem forward_blind_to_attn:
  assumes "params h2 = params h1" "nxt h2 = nxt h1" "rng h2 = rng h1"
  shows "(\<forall>e. EncoderDecoder_forward m src tgt src_mask tgt_mask h1 = Inl e
            \<longrightarrow> EncoderDecoder_forward m src tgt src_mask tgt_mask h2 = Inl e)
    \<and> (\<forall>out h1'. EncoderDecoder_forward m src tgt src_mask tgt_mask h1 = Inr (out, h1')
            \<longrightarrow> params h1' = params h1
              \<and> (\<exists>h2'. EncoderDecoder_forward m src tgt src_mask tgt_mask h2 = Inr (out, h2')
                    \<and> params h2' = params h2 \<and> rng h2' = rng h1'))
    \<and> (\<forall>e. MultiHeadedAttention_forward a query key val msk h1 = Inl e
            \<longrightarrow> MultiHeadedAttention_forward a query key val msk h2 = Inl e)
    \<and> (\<forall>out h1'. MultiHeadedAttention_forward a query key val msk h1 = Inr (out, h1')
            \<longrightarrow> params h1' = params h1
              \<and> (\<exists>h2'. MultiHeadedAttention_forward a query key val msk h2 = Inr (out, h2')
                    \<and> params h2' = params h2 \<and> rng h2' = rng h1'))"
proof -
  have s: "same_params h1 h2"
    using assms by (simp add: same_params_def)
  have "(\<forall>e. f h1 = Inl e \<longrightarrow> f h2 = Inl e)
    \<and> (\<forall>out h1'. f h1 = Inr (out, h1') \<longrightarrow> params h1' = params h1
          \<and> (\<exists>h2'. f h2 = Inr (out, h2') \<and> params h2' = params h2 \<and> rng h2' = rng h1'))"
    if b: "attn_blind f" for f :: "t3 M"
  proof (intro conjI allI impI)
    fix e assume "f h1 = Inl e"
    then show "f h2 = Inl e" by (rule attn_blindD_Inl[OF b s])
  next
    fix out h1' assume r: "f h1 = Inr (out, h1')"
    from attn_blindD_Inr[OF b s r] show "params h1' = params h1" by simp
    from attn_blindD_Inr[OF b s r] obtain h2' where h2': "f h2 = Inr (out, h2')"
      "same_params h1' h2'" "params h1' = params h1" by blast
    then show "\<exists>h2'. f h2 = Inr (out, h2') \<and> params h2' = params h2 \<and> rng h2' = rng h1'"
      using assms by (auto simp: same_params_def)
  qed
  from this[OF attn_blind_EncoderDecoder_forward] this[OF attn_blind_MultiHeadedAttention_forward]
  show ?thesis by blast
qed

text \<open>
  C9 as stated fails: a forward call of a multi-head attention module overwrites its
  attn attribute, which was None, with the attention weights.
\<close>

theorem MultiHeadedAttention_forward_counterexample:
  "MultiHeadedAttention_forward (example_attention 0 52) [[[0, 0], [0, 0]]] [[[0, 0], [0, 0]]]
     [[[0, 0], [0, 0]]] (Some [[[True, True], [True, True]]]) example_heap
   = Inr ([[[0, 0], [0, 0]]],
          example_heap\<lparr>attns := (attns example_heap)(52 := Some (Some [[[[1/2, 1/2], [1/2, 1/2]]]]))\<rparr>)
   \<and> attns example_heap 52 = Some None
   \<and> attns (example_heap\<lparr>attns := (attns example_heap)(52 := Some (Some [[[[1/2, 1/2], [1/2, 1/2]]]]))\<rparr>) 52
       \<noteq> attns example_heap 52"
  by (simp add: fwd_defs ex_defs)

theorem forward_blind_to_attn_witness:
  "params (example_heap\<lparr>attns := (attns example_heap)
             (54 := Some (Some [[[[1]]]]), 52 := Some (Some [[[[1]]]]), 53 := Some (Some [[[[1]]]]))\<rparr>)
     = params example_heap
   \<and> nxt (example_heap\<lparr>attns := (attns example_heap)
             (54 := Some (Some [[[[1]]]]), 52 := Some (Some [[[[1]]]]), 53 := Some (Some [[[[1]]]]))\<rparr>)
     = nxt example_heap
   \<and> rng (example_heap\<lparr>attns := (attns example_heap)
             (54 := Some (Some [[[[1]]]]), 52 := Some (Some [[[[1]]]]), 53 := Some (Some [[[[1]]]]))\<rparr>)
     = rng example_heap
   \<and> EncoderDecoder_forward example_model [[0]] [[0]] (Some [[[True]]]) (Some [[[True]]]) example_heap
     = Inr ([[[(0 - 1 / 2) / (std [0, 1] + 1 / 1000000), (1 - 1 / 2) / (std [0, 1] + 1 / 1000000)]]],
          example_heap\<lparr>attns := (attns example_heap)
             (54 := Some (Some [[[[1]]]]), 52 := Some (Some [[[[1]]]]), 53 := Some (Some [[[[1]]]]))\<rparr>)
   \<and> (\<exists>h2'. EncoderDecoder_forward example_model [[0]] [[0]] (Some [[[True]]]) (Some [[[True]]])
          (example_heap\<lparr>attns := (attns example_heap)
             (54 := Some (Some [[[[1]]]]), 52 := Some (Some [[[[1]]]]), 53 := Some (Some [[[[1]]]]))\<rparr>)
        = Inr ([[[(0 - 1 / 2) / (std [0, 1] + 1 / 1000000), (1 - 1 / 2) / (std [0, 1] + 1 / 1000000)]]], h2')
        \<and> params h2' = params example_heap)
   \<and> MultiHeadedAttention_forward (example_attention 0 52) [[[0, 0], [0, 0]]] [[[0, 0], [0, 0]]]
        [[[0, 0], [0, 0]]] (Some [[[True, True], [True, True]]]) example_heap
     = Inr ([[[0, 0], [0, 0]]],
          example_heap\<lparr>attns := (attns example_heap)(52 := Some (Some [[[[1/2, 1/2], [1/2, 1/2]]]]))\<rparr>)
   \<and> (\<exists>h2'. MultiHeadedAttention_forward (example_attention 0 52) [[[0, 0], [0, 0]]]
          [[[0, 0], [0, 0]]] [[[0, 0], [0, 0]]] (Some [[[True, True], [True, True]]])
          (example_heap\<lparr>attns := (attns example_heap)
             (54 := Some (Some [[[[1]]]]), 52 := Some (Some [[[[1]]]]), 53 := Some (Some [[[[1]]]]))\<rparr>)
        = Inr ([[[0, 0], [0, 0]]], h2') \<and> params h2' = params example_heap)"
proof -
  let ?h2 = "example_heap\<lparr>attns := (attns example_heap)
             (54 := Some (Some [[[[1]]]]), 52 := Some (Some [[[[1]]]]), 53 := Some (Some [[[[1]]]]))\<rparr>"
  have p: "params ?h2 = params example_heap" "nxt ?h2 = nxt example_heap"
    "rng ?h2 = rng example_heap"
    by simp_all
  note t = forward_blind_to_attn [OF p, of example_model "[[0]]" "[[0]]" "Some [[[True]]]"
      "Some [[[True]]]" "example_attention 0 52" "[[[0, 0], [0, 0]]]" "[[[0, 0], [0, 0]]]"
      "[[[0, 0], [0, 0]]]" "Some [[[True, True], [True, True]]]"]
  note e = t [THEN conjunct2, THEN conjunct1, rule_format, OF ed_ex]
  note m = t [THEN conjunct2, THEN conjunct2, THEN conjunct2, rule_format, OF mha_ex]
  from e obtain k where k: "EncoderDecoder_forward example_model [[0]] [[0]] (Some [[[True]]])
      (Some [[[True]]]) ?h2
      = Inr ([[[(0 - 1 / 2) / (std [0, 1] + 1 / 1000000), (1 - 1 / 2) / (std [0, 1] + 1 / 1000000)]]], k)"
    "params k = params ?h2"
    by blast
  from m obtain j where j: "MultiHeadedAttention_forward (example_attention 0 52) [[[0, 0], [0, 0]]]
          [[[0, 0], [0, 0]]] [[[0, 0], [0, 0]]] (Some [[[True, True], [True, True]]]) ?h2
        = Inr ([[[0, 0], [0, 0]]], j)" "params j = params ?h2"
    by blast
  show ?thesis
    apply (intro conjI)
          apply (rule p(1))
         apply (rule p(2))
        apply (rule p(3))
       apply (rule ed_ex)
      apply (rule exI[of _ k])
      apply (rule conjI[OF k(1) trans[OF k(2) p(1)]])
     apply (rule mha_ex)
    apply (rule exI[of _ j])
    apply (rule conjI[OF j(1) trans[OF j(2) p(1)]])
    done
qed

section \<open>Deep copies and the layer stacks\<close>

lemma ext_refl: "ext s s"
  by (simp add: ext_def)

lemma ext_trans: "ext s s' \<Longrightarrow> ext s' s'' \<Longrightarrow> ext s s''"
  unfolding ext_def by (metis (no_types, lifting) le_trans less_le_trans)

lemma covered_mono: "ext s s' \<Longrightarrow> covered s bs \<Longrightarrow> covered s' bs"
  unfolding ext_def covered_def by blast

lemma covered_append: "covered s (bs @ cs) \<longleftrightarrow> covered s bs \<and> covered s cs"
  unfolding covered_def by auto

lemma covered_Nil: "covered s []"
  by (simp add: covered_def)

lemma fresh_copyD:
  "fresh_copy cp ps \<Longrightarrow> cp x s = (y, s') \<Longrightarrow> ext s s' \<and> covered s' (ps y)"
  unfolding fresh_copy_def by blast

lemma copy_param_ext: "copy_param a s = (b, s') \<Longrightarrow> ext s s' \<and> covered s' [b]"
  by (cases s, cases "fst s")
     (auto simp: copy_param_def ext_def covered_def split: option.splits if_splits)

lemma copy_attn_ext: "copy_attn a s = (b, s') \<Longrightarrow> ext s s'"
  by (cases s, cases "fst s")
     (auto simp: copy_attn_def ext_def split: option.splits if_splits)

lemma fresh_copy_map_accum:
  assumes "fresh_copy cp ps"
  shows "fresh_copy (map_accum cp) (\<lambda>xs. concat (map ps xs))"
  unfolding fresh_copy_def
proof (intro allI impI)
  fix xs s ys s'
  assume "map_accum cp xs s = (ys, s')"
  then show "ext s s' \<and> covered s' (concat (map ps ys))"
  proof (induction xs arbitrary: s ys)
    case Nil
    then show ?case by (simp add: ext_refl covered_Nil)
  next
    case (Cons x xs)
    from Cons.prems obtain y s1 zs where 1: "cp x s = (y, s1)"
      and 2: "map_accum cp xs s1 = (zs, s')" and ys: "ys = y # zs"
      by (auto split: prod.splits)
    from fresh_copyD[OF assms 1] Cons.IH[OF 2] show ?case
      by (auto simp: ys covered_append intro: ext_trans covered_mono)
  qed
qed

lemma fresh_copy_Linear: "fresh_copy copy_Linear Linear_parameters"
  unfolding fresh_copy_def
proof (intro allI impI)
  fix l s y s'
  assume "copy_Linear l s = (y, s')"
  then obtain w s1 b where 1: "copy_param (weight l) s = (w, s1)"
    and 2: "copy_param (bias l) s1 = (b, s')" and y: "y = \<lparr>weight = w, bias = b\<rparr>"
    by (auto simp: copy_Linear_def split: prod.splits)
  from copy_param_ext[OF 1] copy_param_ext[OF 2] show "ext s s' \<and> covered s' (Linear_parameters y)"
    by (auto simp: y Linear_parameters_def covered_append[of _ "[w]" "[b]", simplified]
        intro: ext_trans covered_mono)
qed

lemma fresh_copy_LayerNorm: "fresh_copy copy_LayerNorm LayerNorm_parameters"
  unfolding fresh_copy_def
proof (intro allI impI)
  fix n s y s'
  assume "copy_LayerNorm n s = (y, s')"
  then obtain a s1 b where 1: "copy_param (a_2 n) s = (a, s1)"
    and 2: "copy_param (b_2 n) s1 = (b, s')" and y: "y = n\<lparr>a_2 := a, b_2 := b\<rparr>"
    by (auto simp: copy_LayerNorm_def split: prod.splits)
  from copy_param_ext[OF 1] copy_param_ext[OF 2]
  show "ext s s' \<and> covered s' (LayerNorm_parameters y)"
    by (auto simp: y LayerNorm_parameters_def covered_append[of _ "[a]" "[b]", simplified]
        intro: ext_trans covered_mono)
qed

lemma fresh_copy_SublayerConnection:
  "fresh_copy copy_SublayerConnection SublayerConnection_parameters"
  unfolding fresh_copy_def
  using fresh_copyD[OF fresh_copy_LayerNorm]
  by (auto simp: copy_SublayerConnection_def SublayerConnection_parameters_def
      split: prod.splits)

lemma fresh_copy_MultiHeadedAttention:
  "fresh_copy copy_MultiHeadedAttention MultiHeadedAttention_parameters"
  unfolding fresh_copy_def
proof (intro allI impI)
  fix m s y s'
  assume "copy_MultiHeadedAttention m s = (y, s')"
  then obtain ls s1 a where 1: "map_accum copy_Linear (linears m) s = (ls, s1)"
    and 2: "copy_attn (attn m) s1 = (a, s')" and y: "y = m\<lparr>linears := ls, attn := a\<rparr>"
    by (auto simp: copy_MultiHeadedAttention_def split: prod.splits)
  from fresh_copyD[OF fresh_copy_map_accum[OF fresh_copy_Linear] 1] copy_attn_ext[OF 2]
  show "ext s s' \<and> covered s' (MultiHeadedAttention_parameters y)"
    by (auto simp: y MultiHeadedAttention_parameters_def intro: ext_trans covered_mono)
qed

lemma fresh_copy_PositionwiseFeedForward:
  "fresh_copy copy_PositionwiseFeedForward PositionwiseFeedForward_parameters"
  unfolding fresh_copy_def
proof (intro allI impI)
  fix f s y s'
  assume "copy_PositionwiseFeedForward f s = (y, s')"
  then obtain l1 s1 l2 where 1: "copy_Linear (w_1 f) s = (l1, s1)"
    and 2: "copy_Linear (w_2 f) s1 = (l2, s')" and y: "y = f\<lparr>w_1 := l1, w_2 := l2\<rparr>"
    by (auto simp: copy_PositionwiseFeedForward_def split: prod.splits)
  from fresh_copyD[OF fresh_copy_Linear 1] fresh_copyD[OF fresh_copy_Linear 2]
  show "ext s s' \<and> covered s' (PositionwiseFeedForward_parameters y)"
    by (auto simp: y PositionwiseFeedForward_parameters_def covered_append
        intro: ext_trans covered_mono)
qed

lemma fresh_copy_EncoderLayer: "fresh_copy copy_EncoderLayer EncoderLayer_parameters"
  unfolding fresh_copy_def
proof (intro allI impI)
  fix l s y s'
  assume "copy_EncoderLayer l s = (y, s')"
  then obtain a s1 f s2 cs
    where 1: "copy_MultiHeadedAttention (el_self_attn l) s = (a, s1)"
      and 2: "copy_PositionwiseFeedForward (el_feed_forward l) s1 = (f, s2)"
      and 3: "map_accum copy_SublayerConnection (el_sublayer l) s2 = (cs, s')"
      and y: "y = l\<lparr>el_self_attn := a, el_feed_forward := f, el_sublayer := cs\<rparr>"
    by (auto simp: copy_EncoderLayer_def split: prod.splits)
  note r1 = fresh_copyD[OF fresh_copy_MultiHeadedAttention 1]
  note r2 = fresh_copyD[OF fresh_copy_PositionwiseFeedForward 2]
  note r3 = fresh_copyD[OF fresh_copy_map_accum[OF fresh_copy_SublayerConnection] 3]
  have e: "ext s s'"
    using r1 r2 r3 by (blast intro: ext_trans)
  have "covered s' (MultiHeadedAttention_parameters a)"
    using r1 r2 r3 by (blast intro: ext_trans covered_mono)
  moreover have "covered s' (PositionwiseFeedForward_parameters f)"
    using r2 r3 by (blast intro: covered_mono)
  ultimately show "ext s s' \<and> covered s' (EncoderLayer_parameters y)"
    using e r3 by (simp add: y EncoderLayer_parameters_def covered_append)
qed

lemma fresh_copy_DecoderLayer: "fresh_copy copy_DecoderLayer DecoderLayer_parameters"
  unfolding fresh_copy_def
proof (intro allI impI)
  fix l s y s'
  assume "copy_DecoderLayer l s = (y, s')"
  then obtain a s1 b s2 f s3 cs
    where 1: "copy_MultiHeadedAttention (dl_self_attn l) s = (a, s1)"
      and 2: "copy_MultiHeadedAttention (dl_src_attn l) s1 = (b, s2)"
      and 3: "copy_PositionwiseFeedForward (dl_feed_forward l) s2 = (f, s3)"
      and 4: "map_accum copy_SublayerConnection (dl_sublayer l) s3 = (cs, s')"
      and y: "y = l\<lparr>dl_self_attn := a, dl_src_attn := b, dl_feed_forward := f,
                      dl_sublayer := cs\<rparr>"
    by (auto simp: copy_DecoderLayer_def split: prod.splits)
  note r1 = fresh_copyD[OF fresh_copy_MultiHeadedAttention 1]
  note r2 = fresh_copyD[OF fresh_copy_MultiHeadedAttention 2]
  note r3 = fresh_copyD[OF fresh_copy_PositionwiseFeedForward 3]
  note r4 = fresh_copyD[OF fresh_copy_map_accum[OF fresh_copy_SublayerConnection] 4]
  have e3: "ext s3 s'" using r4 by simp
  have e2: "ext s2 s'" using r3 e3 by (blast intro: ext_trans)
  have e1: "ext s1 s'" using r2 e2 by (blast intro: ext_trans)
  have e: "ext s s'" using r1 e1 by (blast intro: ext_trans)
  have "covered s' (MultiHeadedAttention_parameters a)"
    using r1 e1 by (blast intro: covered_mono)
  moreover have "covered s' (MultiHeadedAttention_parameters b)"
    using r2 e2 by (blast intro: covered_mono)
  moreover have "covered s' (PositionwiseFeedForward_parameters f)"
    using r3 e3 by (blast intro: covered_mono)
  ultimately show "ext s s' \<and> covered s' (DecoderLayer_parameters y)"
    using e r4 by (simp add: y DecoderLayer_parameters_def covered_append)
qed

lemma deepcopy_fresh:
  assumes "fresh_copy cp ps"
  shows "\<exists>y h'. deepcopy cp x h = Inr (y, h') \<and> nxt h \<le> nxt h'
            \<and> set (ps y) \<subseteq> {nxt h..<nxt h'}"
proof -
  obtain y pm am h' where r: "cp x ((Map.empty, Map.empty), h) = (y, ((pm, am), h'))"
    by (metis prod.exhaust)
  from fresh_copyD[OF assms r] have "nxt h \<le> nxt h'" "set (ps y) \<subseteq> {nxt h..<nxt h'}"
    by (auto simp: ext_def covered_def)
  with r show ?thesis
    by (simp add: deepcopy_def)
qed

lemma clones_n_fresh:
  assumes "fresh_copy cp ps"
  shows "\<exists>cs h'. clones_n cp x n h = Inr (cs, h') \<and> length cs = n \<and> nxt h \<le> nxt h'
            \<and> (\<forall>i<n. set (ps (cs ! i)) \<subseteq> {nxt h..<nxt h'})
            \<and> (\<forall>i<n. \<forall>j<n. i \<noteq> j \<longrightarrow> set (ps (cs ! i)) \<inter> set (ps (cs ! j)) = {})"
proof (induction n arbitrary: h)
  case 0
  show ?case by (simp add: returnM_def)
next
  case (Suc n)
  from deepcopy_fresh[OF assms, of x h] obtain y h1
    where d: "deepcopy cp x h = Inr (y, h1)" "nxt h \<le> nxt h1"
      "set (ps y) \<subseteq> {nxt h..<nxt h1}" by blast
  from Suc[of h1] obtain cs h' where c: "clones_n cp x n h1 = Inr (cs, h')" "length cs = n"
    "nxt h1 \<le> nxt h'" "\<forall>i<n. set (ps (cs ! i)) \<subseteq> {nxt h1..<nxt h'}"
    "\<forall>i<n. \<forall>j<n. i \<noteq> j \<longrightarrow> set (ps (cs ! i)) \<inter> set (ps (cs ! j)) = {}"
    by blast
  have run: "clones_n cp x (Suc n) h = Inr (y # cs, h')"
    using d(1) c(1) by (simp add: bindM_def returnM_def)
  have sub: "set (ps ((y # cs) ! i)) \<subseteq> {nxt h..<nxt h'}" if "i < Suc n" for i
  proof (cases i)
    case 0
    then show ?thesis using d(3) c(3) by auto
  next
    case (Suc k)
    then show ?thesis using c(4) that d(2) by fastforce
  qed
  have dis: "set (ps ((y # cs) ! i)) \<inter> set (ps ((y # cs) ! j)) = {}"
    if "i < Suc n" "j < Suc n" "i \<noteq> j" for i j
  proof (cases i)
    case 0
    with that(3) obtain k where j: "j = Suc k" by (cases j) auto
    then have "set (ps (cs ! k)) \<subseteq> {nxt h1..<nxt h'}" using c(4) that by simp
    then show ?thesis using 0 j d(3) by fastforce
  next
    case (Suc k)
    show ?thesis
    proof (cases j)
      case 0
      have "set (ps (cs ! k)) \<subseteq> {nxt h1..<nxt h'}" using c(4) that Suc by simp
      then show ?thesis using 0 Suc d(3) by fastforce
    next
      case j: (Suc k')
      then show ?thesis using Suc that c(5) by simp
    qed
  qed
  show ?case
    using run c(2) d(2) c(3) sub dis by (intro exI[of _ "y # cs"] exI[of _ h']) simp
qed


















lemma LayerNorm_init_ok:
  "0 \<le> n \<Longrightarrow> \<exists>l h'. LayerNorm_init n e h = Inr (l, h')"
  by (simp add: LayerNorm_init_def bindM_def alloc_def returnM_def)









section \<open>Construction\<close>

lemma nn_Linear_init_ok:
  "0 \<le> i \<Longrightarrow> 0 \<le> out \<Longrightarrow> \<exists>l h'. nn_Linear_init i out h = Inr (l, h')"
  by (simp add: nn_Linear_init_def bindM_def returnM_def alloc_def uniform_mat_def
      uniform_vec_def draw_def Let_def)

lemma nn_Linear_init_neg:
  "i < 0 \<or> out < 0 \<Longrightarrow> nn_Linear_init i out h = Inl RuntimeError"
  by (simp add: nn_Linear_init_def liftE_def)

lemma clones_ok:
  assumes "fresh_copy cp ps"
  shows "\<exists>cs h'. clones cp x N h = Inr (cs, h')"
  using clones_n_fresh[OF assms, of x "nat N" h] unfolding clones_def by blast

lemma Dropout_init_ok: "0 \<le> p \<Longrightarrow> p \<le> 1 \<Longrightarrow> Dropout_init p = Inr \<lparr>dropout_p = p, training = True\<rparr>"
  by (simp add: Dropout_init_def)

lemma MultiHeadedAttention_init_ok:
  assumes "0 \<le> p" "p \<le> 1" "hc \<noteq> 0" "d_model mod hc = 0" "0 \<le> d_model"
  shows "\<exists>m h'. MultiHeadedAttention_init hc d_model p h = Inr (m, h')"
proof -
  from nn_Linear_init_ok[OF assms(5,5)] obtain l h1
    where 1: "nn_Linear_init d_model d_model h = Inr (l, h1)" by blast
  from clones_ok[OF fresh_copy_Linear] obtain ls h2
    where 2: "clones copy_Linear l 4 h1 = Inr (ls, h2)" by blast
  show ?thesis
    using assms 1 2
    by (simp add: MultiHeadedAttention_init_def bindM_def returnM_def alloc_attn_def liftE_def
        Dropout_init_ok)
qed

lemma MultiHeadedAttention_init_fail:
  "hc = 0 \<Longrightarrow> MultiHeadedAttention_init hc d_model p h = Inl ZeroDivisionError"
  "hc \<noteq> 0 \<Longrightarrow> d_model mod hc \<noteq> 0
     \<Longrightarrow> MultiHeadedAttention_init hc d_model p h = Inl AssertionError"
  "hc \<noteq> 0 \<Longrightarrow> d_model mod hc = 0 \<Longrightarrow> d_model < 0
     \<Longrightarrow> MultiHeadedAttention_init hc d_model p h = Inl RuntimeError"
proof -
  show "hc = 0 \<Longrightarrow> MultiHeadedAttention_init hc d_model p h = Inl ZeroDivisionError"
    by (simp add: MultiHeadedAttention_init_def liftE_def)
  show "hc \<noteq> 0 \<Longrightarrow> d_model mod hc \<noteq> 0
     \<Longrightarrow> MultiHeadedAttention_init hc d_model p h = Inl AssertionError"
    by (simp add: MultiHeadedAttention_init_def liftE_def)
  assume a: "hc \<noteq> 0" "d_model mod hc = 0" "d_model < 0"
  have "nn_Linear_init d_model d_model h = Inl RuntimeError"
    using a(3) by (simp add: nn_Linear_init_neg)
  then show "MultiHeadedAttention_init hc d_model p h = Inl RuntimeError"
    using a(1,2) by (simp only: MultiHeadedAttention_init_def if_False bindM_Inl simp_thms)
qed

lemma make_model_first:
  "MultiHeadedAttention_init hc d_model (1 / 10) h = Inl e
   \<Longrightarrow> make_model sv tv N d_model d_ff hc dropout h = Inl e"
  unfolding make_model_def by (rule bindM_Inl)

lemma slice_cols_3: "slice_cols 0 3 = [0, 2]" "slice_cols (Suc 0) 3 = [1]"
  by (simp_all add: slice_cols_def upt_conv_Cons numeral_3_eq_3)

lemma PositionalEncoding_init_mismatch:
  assumes "0 \<le> p" "p \<le> 1" "0 \<le> max_len" "0 < d_model"
    and "length (slice_cols 0 (nat d_model)) \<noteq> length (slice_cols 1 (nat d_model))"
    and "length (slice_cols 0 (nat d_model)) \<noteq> 1"
  shows "PositionalEncoding_init d_model p max_len h = Inl RuntimeError"
  using assms
  by (simp add: PositionalEncoding_init_def Dropout_init_ok Let_def bindM_def liftE_def
      setitem_cols_def)

lemma PositionalEncoding_init_3:
  assumes "0 \<le> p" "p \<le> 1" "0 \<le> max_len"
  shows "PositionalEncoding_init 3 p max_len h = Inl RuntimeError"
  using assms by (intro PositionalEncoding_init_mismatch) (simp_all add: slice_cols_3)

lemma PositionwiseFeedForward_init_ok:
  assumes "0 \<le> d_model" "0 \<le> d_ff" "0 \<le> p" "p \<le> 1"
  shows "\<exists>f h'. PositionwiseFeedForward_init d_model d_ff p h = Inr (f, h')"
proof -
  from nn_Linear_init_ok[OF assms(1,2)] obtain l1 h1
    where 1: "nn_Linear_init d_model d_ff h = Inr (l1, h1)" by blast
  from nn_Linear_init_ok[OF assms(2,1)] obtain l2 h2
    where 2: "nn_Linear_init d_ff d_model h1 = Inr (l2, h2)" by blast
  show ?thesis
    using 1 2 assms(3,4)
    by (simp add: PositionwiseFeedForward_init_def bindM_def liftE_def returnM_def Dropout_init_ok)
qed

lemma make_model_odd:
  "make_model 10 10 1 3 4 1 (1 / 10) h = Inl RuntimeError"
proof -
  from MultiHeadedAttention_init_ok[of "1 / 10" 1 3 h] obtain m h1
    where 1: "MultiHeadedAttention_init 1 3 (1 / 10) h = Inr (m, h1)" by auto
  from PositionwiseFeedForward_init_ok[of 3 4 "1 / 10" h1] obtain f h2
    where 2: "PositionwiseFeedForward_init 3 4 (1 / 10) h1 = Inr (f, h2)" by auto
  have 3: "PositionalEncoding_init 3 (1 / 10) 5000 h2 = Inl RuntimeError"
    by (rule PositionalEncoding_init_3) simp_all
  show ?thesis
    unfolding make_model_def
    by (simp only: bindM_Inr[where m = "MultiHeadedAttention_init 1 3 (1 / 10)" and h = h, OF 1]
        bindM_Inr[where m = "PositionwiseFeedForward_init 3 4 (1 / 10)" and h = h1, OF 2]
        bindM_Inl[where m = "PositionalEncoding_init 3 (1 / 10) 5000" and h = h2, OF 3])
qed

lemma returns_bindM:
  assumes "returns P m" "\<And>x. P x \<Longrightarrow> returns Q (f x)"
  shows "returns Q (bindM m f)"
  unfolding returns_def
proof
  fix h
  from assms(1) obtain x h1 where 1: "m h = Inr (x, h1)" "P x"
    unfolding returns_def by blast
  from assms(2)[OF 1(2)] obtain y h2 where 2: "f x h1 = Inr (y, h2)" "Q y"
    unfolding returns_def by blast
  show "\<exists>y h'. bindM m f h = Inr (y, h') \<and> Q y"
    using 1 2 by (auto simp: bindM_def)
qed

lemma returns_weaken: "returns P m \<Longrightarrow> (\<And>x. P x \<Longrightarrow> Q x) \<Longrightarrow> returns Q m"
  unfolding returns_def by blast

lemma returns_returnM: "P x \<Longrightarrow> returns P (returnM x)"
  by (simp add: returns_def returnM_def)

lemma returns_liftE: "r = Inr x \<Longrightarrow> P x \<Longrightarrow> returns P (liftE r)"
  by (simp add: returns_def liftE_def)

lemma returnsI: "(\<And>h. \<exists>x h'. m h = Inr (x, h')) \<Longrightarrow> returns (\<lambda>_. True) m"
  by (simp add: returns_def)

lemma returns_alloc: "returns (\<lambda>_. True) (alloc t)"
  by (simp add: returns_def alloc_def)

lemma returns_deepcopy: "returns (\<lambda>_. True) (deepcopy cp x)"
  by (auto simp: returns_def deepcopy_def split: prod.splits)

lemma returns_clones: "fresh_copy cp ps \<Longrightarrow> returns (\<lambda>_. True) (clones cp x N)"
  by (rule returnsI) (rule clones_ok)

lemma returns_Dropout_init:
  "0 \<le> p \<Longrightarrow> p \<le> 1 \<Longrightarrow> returns (\<lambda>_. True) (liftE (Dropout_init p))"
  by (simp add: returns_def liftE_def Dropout_init_ok)

lemma returns_draw: "returns (\<lambda>_. True) (draw n)"
  by (simp add: returns_def draw_def)

lemma returns_nn_Linear_init:
  "0 \<le> i \<Longrightarrow> 0 \<le> out \<Longrightarrow> returns (\<lambda>_. True) (nn_Linear_init i out)"
  by (rule returnsI) (rule nn_Linear_init_ok)

lemma returns_MultiHeadedAttention_init:
  "0 \<le> p \<Longrightarrow> p \<le> 1 \<Longrightarrow> hc \<noteq> 0 \<Longrightarrow> d_model mod hc = 0 \<Longrightarrow> 0 \<le> d_model
   \<Longrightarrow> returns (\<lambda>_. True) (MultiHeadedAttention_init hc d_model p)"
  by (rule returnsI) (rule MultiHeadedAttention_init_ok)

lemma returns_PositionwiseFeedForward_init:
  "0 \<le> d_model \<Longrightarrow> 0 \<le> d_ff \<Longrightarrow> 0 \<le> p \<Longrightarrow> p \<le> 1
   \<Longrightarrow> returns (\<lambda>_. True) (PositionwiseFeedForward_init d_model d_ff p)"
  by (rule returnsI) (rule PositionwiseFeedForward_init_ok)

lemma slice_cols_even:
  "length (slice_cols 0 (2 * k)) = k" "length (slice_cols (Suc 0) (2 * k)) = k"
  by (induction k) (simp_all add: slice_cols_def)

lemma returns_PositionalEncoding_init:
  assumes "0 \<le> p" "p \<le> 1" "0 \<le> max_len" "0 < d_model" "even d_model"
  shows "returns (\<lambda>_. True) (PositionalEncoding_init d_model p max_len)"
proof -
  from assms(4,5) obtain k where k: "nat d_model = 2 * k"
    by (auto elim!: evenE simp: nat_mult_distrib)
  show ?thesis
    using assms
    by (simp add: returns_def PositionalEncoding_init_def Dropout_init_ok Let_def bindM_def liftE_def
      setitem_cols_def k slice_cols_even alloc_def returnM_def)
qed

lemma returns_LayerNorm_init:
  "0 \<le> n \<Longrightarrow> returns (\<lambda>_. True) (LayerNorm_init n e)"
  by (rule returnsI) (rule LayerNorm_init_ok)

lemma returns_SublayerConnection_init:
  "0 \<le> n \<Longrightarrow> 0 \<le> p \<Longrightarrow> p \<le> 1 \<Longrightarrow> returns (\<lambda>_. True) (SublayerConnection_init n p)"
  unfolding SublayerConnection_init_def
  by (intro returns_bindM[OF returns_LayerNorm_init] returns_bindM[OF returns_Dropout_init]
      returns_returnM) simp_all

lemma returns_EncoderLayer_init:
  "0 \<le> n \<Longrightarrow> 0 \<le> p \<Longrightarrow> p \<le> 1
   \<Longrightarrow> returns (\<lambda>l. el_size l = n) (EncoderLayer_init n a f p)"
  unfolding EncoderLayer_init_def
  by (intro returns_bindM[OF returns_SublayerConnection_init]
      returns_bindM[OF returns_clones[OF fresh_copy_SublayerConnection]] returns_returnM) simp_all

lemma returns_DecoderLayer_init:
  "0 \<le> n \<Longrightarrow> 0 \<le> p \<Longrightarrow> p \<le> 1
   \<Longrightarrow> returns (\<lambda>l. dl_size l = n) (DecoderLayer_init n a b f p)"
  unfolding DecoderLayer_init_def
  by (intro returns_bindM[OF returns_SublayerConnection_init]
      returns_bindM[OF returns_clones[OF fresh_copy_SublayerConnection]] returns_returnM) simp_all

lemma returns_Encoder_init:
  "0 \<le> el_size l \<Longrightarrow> returns (\<lambda>_. True) (Encoder_init l N)"
  unfolding Encoder_init_def
  by (intro returns_bindM[OF returns_clones[OF fresh_copy_EncoderLayer]]
      returns_bindM[OF returns_LayerNorm_init] returns_returnM) simp_all

lemma returns_Decoder_init:
  "0 \<le> dl_size l \<Longrightarrow> returns (\<lambda>_. True) (Decoder_init l N)"
  unfolding Decoder_init_def
  by (intro returns_bindM[OF returns_clones[OF fresh_copy_DecoderLayer]]
      returns_bindM[OF returns_LayerNorm_init] returns_returnM) simp_all

lemma returns_Embeddings_init:
  "0 \<le> d_model \<Longrightarrow> 0 \<le> vocab \<Longrightarrow> returns (\<lambda>_. True) (Embeddings_init d_model vocab)"
proof -
  assume a: "0 \<le> d_model" "0 \<le> vocab"
  have "returns (\<lambda>_. True) (normal_mat (nat vocab) (nat d_model))"
    unfolding normal_mat_def by (intro returns_bindM[OF returns_draw] returns_returnM) simp
  then have "returns (\<lambda>_. True)
      (bindM (normal_mat (nat vocab) (nat d_model)) (\<lambda>W.
       bindM (alloc (T2 W)) (\<lambda>w. returnM \<lparr>lut = w, emb_d_model = d_model\<rparr>)))"
    by (intro returns_bindM[OF _ returns_bindM[OF returns_alloc returns_returnM]]) simp_all
  then show ?thesis
    using a by (simp add: Embeddings_init_def)
qed

lemma returns_Generator_init:
  "0 \<le> d_model \<Longrightarrow> 0 \<le> vocab \<Longrightarrow> returns (\<lambda>_. True) (Generator_init d_model vocab)"
  unfolding Generator_init_def
  by (intro returns_bindM[OF returns_nn_Linear_init] returns_returnM) simp_all

lemma returns_xavier_uniform: "returns (\<lambda>_. True) (xavier_uniform p)"
  by (auto simp: returns_def xavier_uniform_def bindM_def uniform_mat_def uniform_vec_def draw_def
      returnM_def Let_def split: option.splits tensor.splits)

lemma returns_foldM:
  assumes "\<And>x l. returns (\<lambda>_. True) (f x l)"
  shows "returns (\<lambda>_. True) (foldM f x ls)"
  by (induction ls arbitrary: x) (auto intro: returns_returnM returns_bindM assms)

lemma returns_make_model:
  assumes "hc \<noteq> 0" "d_model mod hc = 0" "0 < d_model" "even d_model"
    and "0 \<le> dropout" "dropout \<le> 1" "0 \<le> src_vocab" "0 \<le> tgt_vocab" "0 \<le> d_ff"
  shows "returns (\<lambda>_. True) (make_model src_vocab tgt_vocab N d_model d_ff hc dropout)"
  unfolding make_model_def Let_def
  using assms
  by (intro returns_bindM[OF returns_MultiHeadedAttention_init]
      returns_bindM[OF returns_PositionwiseFeedForward_init]
      returns_bindM[OF returns_PositionalEncoding_init]
      returns_bindM[OF returns_deepcopy]
      returns_bindM[OF returns_EncoderLayer_init]
      returns_bindM[OF returns_DecoderLayer_init]
      returns_bindM[OF returns_Encoder_init]
      returns_bindM[OF returns_Decoder_init]
      returns_bindM[OF returns_Embeddings_init]
      returns_bindM[OF returns_Generator_init]
      returns_bindM[OF returns_foldM]
      returns_xavier_uniform returns_returnM) simp_all

text \<open>
  C1 (amended). For a positive d_model and a valid dropout rate, constructing a
  multi-head attention module succeeds exactly when the head count is not 0 and divides
  d_model. When a non-zero head count does not divide d_model, the constructor raises
  AssertionError, and so does the model factory, whose first step is that constructor.
  The factory succeeds only if the head count is not 0 and divides d_model; for an even
  d_model, positive vocabulary sizes and feed-forward width and a valid dropout rate,
  it succeeds whenever the head count is not 0 and divides d_model.
\<close>

theorem construction_divisibility:
  assumes "0 \<le> p" "p \<le> 1" "0 < d_model"
  shows "((\<exists>m h'. MultiHeadedAttention_init hc d_model p h = Inr (m, h'))
            \<longleftrightarrow> hc \<noteq> 0 \<and> d_model mod hc = 0)
    \<and> (hc \<noteq> 0 \<and> d_model mod hc \<noteq> 0
          \<longrightarrow> MultiHeadedAttention_init hc d_model p h = Inl AssertionError
            \<and> make_model sv tv N d_model d_ff hc dropout h = Inl AssertionError)
    \<and> ((\<exists>m h'. make_model sv tv N d_model d_ff hc dropout h = Inr (m, h'))
          \<longrightarrow> hc \<noteq> 0 \<and> d_model mod hc = 0)
    \<and> (even d_model \<and> 0 \<le> dropout \<and> dropout \<le> 1 \<and> 0 < sv \<and> 0 < tv \<and> 0 < d_ff
         \<and> hc \<noteq> 0 \<and> d_model mod hc = 0
          \<longrightarrow> (\<exists>m h'. make_model sv tv N d_model d_ff hc dropout h = Inr (m, h')))"
proof (intro conjI)
  show "(\<exists>m h'. MultiHeadedAttention_init hc d_model p h = Inr (m, h'))
            \<longleftrightarrow> hc \<noteq> 0 \<and> d_model mod hc = 0"
  proof
    assume "\<exists>m h'. MultiHeadedAttention_init hc d_model p h = Inr (m, h')"
    then obtain m h' where r: "MultiHeadedAttention_init hc d_model p h = Inr (m, h')"
      by blast
    have 1: "hc \<noteq> 0"
    proof
      assume "hc = 0"
      from MultiHeadedAttention_init_fail(1)[OF this, of d_model p h] r show False by simp
    qed
    have 2: "d_model mod hc = 0"
    proof (rule ccontr)
      assume "d_model mod hc \<noteq> 0"
      from MultiHeadedAttention_init_fail(2)[OF 1 this, of p h] r show False by simp
    qed
    from 1 2 show "hc \<noteq> 0 \<and> d_model mod hc = 0"
      by simp
  next
    assume "hc \<noteq> 0 \<and> d_model mod hc = 0"
    then show "\<exists>m h'. MultiHeadedAttention_init hc d_model p h = Inr (m, h')"
      using assms(3) by (intro MultiHeadedAttention_init_ok[OF assms(1,2)]) simp_all
  qed
next
  show "hc \<noteq> 0 \<and> d_model mod hc \<noteq> 0
          \<longrightarrow> MultiHeadedAttention_init hc d_model p h = Inl AssertionError
            \<and> make_model sv tv N d_model d_ff hc dropout h = Inl AssertionError"
  proof (intro impI conjI)
    assume a: "hc \<noteq> 0 \<and> d_model mod hc \<noteq> 0"
    then show "MultiHeadedAttention_init hc d_model p h = Inl AssertionError"
      by (simp add: MultiHeadedAttention_init_fail(2))
    from a have "MultiHeadedAttention_init hc d_model (1 / 10) h = Inl AssertionError"
      by (simp add: MultiHeadedAttention_init_fail(2))
    then show "make_model sv tv N d_model d_ff hc dropout h = Inl AssertionError"
      by (rule make_model_first)
  qed
next
  show "(\<exists>m h'. make_model sv tv N d_model d_ff hc dropout h = Inr (m, h'))
          \<longrightarrow> hc \<noteq> 0 \<and> d_model mod hc = 0"
  proof
    assume "\<exists>m h'. make_model sv tv N d_model d_ff hc dropout h = Inr (m, h')"
    then obtain m h' where r: "make_model sv tv N d_model d_ff hc dropout h = Inr (m, h')"
      by blast
    show "hc \<noteq> 0 \<and> d_model mod hc = 0"
    proof (rule ccontr)
      assume "\<not> (hc \<noteq> 0 \<and> d_model mod hc = 0)"
      then have "\<exists>e. MultiHeadedAttention_init hc d_model (1 / 10) h = Inl e"
        using MultiHeadedAttention_init_fail(1,2)[of hc d_model "1 / 10" h] by auto
      then obtain e where "MultiHeadedAttention_init hc d_model (1 / 10) h = Inl e" ..
      then have "make_model sv tv N d_model d_ff hc dropout h = Inl e"
        by (rule make_model_first)
      with r show False
        by simp
    qed
  qed
next
  show "even d_model \<and> 0 \<le> dropout \<and> dropout \<le> 1 \<and> 0 < sv \<and> 0 < tv \<and> 0 < d_ff
         \<and> hc \<noteq> 0 \<and> d_model mod hc = 0
          \<longrightarrow> (\<exists>m h'. make_model sv tv N d_model d_ff hc dropout h = Inr (m, h'))"
  proof
    assume a: "even d_model \<and> 0 \<le> dropout \<and> dropout \<le> 1 \<and> 0 < sv \<and> 0 < tv \<and> 0 < d_ff
         \<and> hc \<noteq> 0 \<and> d_model mod hc = 0"
    then have "returns (\<lambda>_. True) (make_model sv tv N d_model d_ff hc dropout)"
      using assms(3) by (intro returns_make_model) simp_all
    then show "\<exists>m h'. make_model sv tv N d_model d_ff hc dropout h = Inr (m, h')"
      by (simp add: returns_def)
  qed
qed

text \<open>
  C1 as stated fails in the other direction: 2 divides -4, but the linear layers cannot
  be allocated; 1 divides 3 and the attention module is built, but the factory fails,
  because the positional encoding assigns two columns of cosines to the one odd column
  of a buffer of width 3.
\<close>

theorem construction_counterexample:
  "MultiHeadedAttention_init 2 (- 4) (1 / 10) empty_heap = Inl RuntimeError
   \<and> (- 4 :: int) mod 2 = 0
   \<and> \<not> isl (MultiHeadedAttention_init 1 3 (1 / 10) empty_heap)
   \<and> (3 :: int) mod 1 = 0
   \<and> make_model 10 10 1 3 4 1 (1 / 10) empty_heap = Inl RuntimeError"
proof -
  have "MultiHeadedAttention_init 2 (- 4) (1 / 10) empty_heap = Inl RuntimeError"
    by (rule MultiHeadedAttention_init_fail(3)) simp_all
  moreover from MultiHeadedAttention_init_ok[of "1 / 10" 1 3 empty_heap]
  have "\<not> isl (MultiHeadedAttention_init 1 3 (1 / 10) empty_heap)"
    by auto
  ultimately show ?thesis
    using make_model_odd[of empty_heap] by simp
qed

theorem construction_divisibility_witness:
  "(0 :: real) \<le> 1 / 10 \<and> (1 / 10 :: real) \<le> 1 \<and> (0 :: int) < 512
   \<and> (8 :: int) \<noteq> 0 \<and> (512 :: int) mod 8 = 0 \<and> even (512 :: int)
   \<and> (0 :: int) < 10 \<and> (0 :: int) < 2048
   \<and> \<not> isl (MultiHeadedAttention_init 8 512 (1 / 10) empty_heap)
   \<and> \<not> isl (make_model 10 10 6 512 2048 8 (1 / 10) empty_heap)
   \<and> (7 :: int) \<noteq> 0 \<and> (512 :: int) mod 7 \<noteq> 0
   \<and> MultiHeadedAttention_init 7 512 (1 / 10) empty_heap = Inl AssertionError
   \<and> make_model 10 10 6 512 2048 7 (1 / 10) empty_heap = Inl AssertionError"
proof -
  have p: "(0 :: real) \<le> 1 / 10" "(1 / 10 :: real) \<le> 1" "(0 :: int) < 512" by simp_all
  note a = construction_divisibility [OF p, of 8 empty_heap 10 10 6 2048 "1 / 10"]
  note b = construction_divisibility [OF p, of 7 empty_heap 10 10 6 2048 "1 / 10"]
  from a have "\<exists>m h'. MultiHeadedAttention_init 8 512 (1 / 10) empty_heap = Inr (m, h')"
    by simp
  then have 1: "\<not> isl (MultiHeadedAttention_init 8 512 (1 / 10) empty_heap)"
    by auto
  from a have "\<exists>m h'. make_model 10 10 6 512 2048 8 (1 / 10) empty_heap = Inr (m, h')"
    by simp
  then have 2: "\<not> isl (make_model 10 10 6 512 2048 8 (1 / 10) empty_heap)"
    by auto
  from b have 3: "MultiHeadedAttention_init 7 512 (1 / 10) empty_heap = Inl AssertionError
    \<and> make_model 10 10 6 512 2048 7 (1 / 10) empty_heap = Inl AssertionError"
    by simp
  from 1 2 3 show ?thesis by simp
qed

end
